theory Spec2Isabelle
  imports Complex_Main "HOL-Library.AList" "HOL-Library.Monad_Syntax"
begin

section \<open>Numbers and JavaScript helpers\<close>

text \<open>
  JavaScript numbers are modelled as exact numbers: \<^typ>\<open>int\<close> where the program only ever
  holds integers (tile indices, hit points, gold, tick counters) and \<^typ>\<open>real\<close> for
  fractional positions and progress values. Rounding error of IEEE doubles is not part of
  the model. \<open>Math.round\<close> rounds half up, which is \<^term>\<open>\<lambda>v::real. \<lfloor>v + 1/2\<rfloor>\<close>.
\<close>

definition mathRound :: "real \<Rightarrow> int" where
  "mathRound v = \<lfloor>v + 1/2\<rfloor>"

text \<open>Array indexing \<open>xs[i]\<close>: \<open>undefined\<close> (here \<open>None\<close>) outside the array.\<close>

definition jsGet :: "'a list \<Rightarrow> int \<Rightarrow> 'a option" where
  "jsGet xs i = (if 0 \<le> i \<and> i < int (length xs) then Some (xs ! nat i) else None)"

section \<open>pathfinding.ts\<close>

text \<open>
  Every cost that \<open>findPath\<close> computes is a sum of the edge costs \<open>1\<close> and \<open>Math.SQRT2\<close> and
  of the octile heuristic, hence a number \<open>a + b\<surd>2\<close> with integers \<open>a\<close>, \<open>b\<close>. Such a
  number is kept as the pair \<open>Cost a b\<close>; \<open>cval\<close> is the number it stands for, and
  \<open>cless\<close> decides \<open><\<close> on these numbers with integer arithmetic only.
\<close>

datatype Cost = Cost int int

fun cval :: "Cost \<Rightarrow> real" where
  "cval (Cost a b) = of_int a + of_int b * sqrt 2"

fun cadd :: "Cost \<Rightarrow> Cost \<Rightarrow> Cost" where
  "cadd (Cost a b) (Cost c d) = Cost (a + c) (b + d)"

definition negSurd :: "int \<Rightarrow> int \<Rightarrow> bool" where
  "negSurd p q =
     (if 0 \<le> p \<and> 0 \<le> q then False
      else if p \<le> 0 \<and> q \<le> 0 then True
      else if p < 0 then 2 * q * q < p * p
      else p * p < 2 * q * q)"

fun cless :: "Cost \<Rightarrow> Cost \<Rightarrow> bool" where
  "cless (Cost a b) (Cost c d) = negSurd (a - c) (b - d)"

type_synonym Point = "int \<times> int"

datatype AStarNode =
  AStarNode (node_x: int) (node_y: int) (node_g: Cost) (node_f: Cost)
            (node_parent: "AStarNode option")

type_synonym Grid = "bool list list"

definition gridHeight :: "Grid \<Rightarrow> int" where
  "gridHeight walkable = int (length walkable)"

definition gridWidth :: "Grid \<Rightarrow> int" where
  "gridWidth walkable = (case walkable of [] \<Rightarrow> 0 | row # _ \<Rightarrow> int (length row))"

text \<open>\<open>walkable[y][x]\<close> as a condition; a missing row or cell is \<open>undefined\<close>, which is falsy.
  Every use in the program is guarded by a bounds check on \<open>y\<close>.\<close>

definition walkableAt :: "Grid \<Rightarrow> int \<Rightarrow> int \<Rightarrow> bool" where
  "walkableAt walkable tx ty =
     (case jsGet walkable ty of
        None \<Rightarrow> False
      | Some row \<Rightarrow> (case jsGet row tx of None \<Rightarrow> False | Some b \<Rightarrow> b))"

definition dirs :: "(int \<times> int \<times> Cost) list" where
  "dirs = [(0, -1, Cost 1 0), (0, 1, Cost 1 0), (-1, 0, Cost 1 0), (1, 0, Cost 1 0),
           (-1, -1, Cost 0 1), (1, -1, Cost 0 1), (-1, 1, Cost 0 1), (1, 1, Cost 0 1)]"

definition heuristic :: "int \<Rightarrow> int \<Rightarrow> int \<Rightarrow> int \<Rightarrow> Cost" where
  "heuristic ax ay bx by =
     (let dx = \<bar>ax - bx\<bar>; dy = \<bar>ay - by\<bar>
      in Cost (max dx dy - min dx dy) (min dx dy))"

definition key :: "Grid \<Rightarrow> int \<Rightarrow> int \<Rightarrow> int" where
  "key walkable kx ky = ky * gridWidth walkable + kx"

definition inBounds :: "Grid \<Rightarrow> int \<Rightarrow> int \<Rightarrow> bool" where
  "inBounds walkable tx ty =
     (\<not> (tx < 0 \<or> tx \<ge> gridWidth walkable \<or> ty < 0 \<or> ty \<ge> gridHeight walkable))"

text \<open>The scan for the open node with the lowest \<open>f\<close>: the first one among equals.\<close>

definition bestIndex :: "AStarNode list \<Rightarrow> nat" where
  "bestIndex opn =
     fold (\<lambda>i bestIdx. if cless (node_f (opn ! i)) (node_f (opn ! bestIdx)) then i else bestIdx)
          [1 ..< length opn] 0"

text \<open>\<open>open[bestIdx] = open[open.length - 1]; open.pop()\<close>\<close>

definition removeAt :: "AStarNode list \<Rightarrow> nat \<Rightarrow> AStarNode list" where
  "removeAt opn bestIdx = butlast (opn[bestIdx := last opn])"

text \<open>One round of the loop over \<open>dirs\<close>, for the direction \<open>(dx, dy, cost)\<close>.\<close>

definition relax ::
  "Grid \<Rightarrow> Point \<Rightarrow> int set \<Rightarrow> AStarNode \<Rightarrow> int \<times> int \<times> Cost \<Rightarrow>
   AStarNode list \<times> (int \<rightharpoonup> Cost) \<Rightarrow> AStarNode list \<times> (int \<rightharpoonup> Cost)" where
  "relax walkable endPt closedSet current d acc =
     (case d of (dx, dy, cost) \<Rightarrow>
      (case acc of (opn, gScores) \<Rightarrow>
        (let nx = node_x current + dx; ny = node_y current + dy in
         if \<not> inBounds walkable nx ny then acc
         else if \<not> walkableAt walkable nx ny then acc
         else if dx \<noteq> 0 \<and> dy \<noteq> 0 \<and>
                 (\<not> walkableAt walkable (node_x current) (node_y current + dy) \<or>
                  \<not> walkableAt walkable (node_x current + dx) (node_y current)) then acc
         else
           (let nk = key walkable nx ny in
            if nk \<in> closedSet then acc
            else
              (let tentativeG = cadd (node_g current) cost in
               (case gScores nk of
                  Some prevG \<Rightarrow>
                    if \<not> cless tentativeG prevG then acc
                    else (opn @ [AStarNode nx ny tentativeG
                                   (cadd tentativeG (heuristic nx ny (fst endPt) (snd endPt)))
                                   (Some current)],
                          gScores(nk \<mapsto> tentativeG))
                | None \<Rightarrow>
                    (opn @ [AStarNode nx ny tentativeG
                              (cadd tentativeG (heuristic nx ny (fst endPt) (snd endPt)))
                              (Some current)],
                     gScores(nk \<mapsto> tentativeG))))))))"

text \<open>Walking the parent links back from the destination; the caller reverses the result.\<close>

fun backtrack :: "Point \<Rightarrow> AStarNode \<Rightarrow> Point list" where
  "backtrack start (AStarNode nx ny ng nf np) =
     (if nx = fst start \<and> ny = snd start then []
      else (nx, ny) # (case np of None \<Rightarrow> [] | Some n \<Rightarrow> backtrack start n))"

definition validKeys :: "Grid \<Rightarrow> int set" where
  "validKeys walkable = {0 ..< gridWidth walkable * gridHeight walkable}"

definition nodeKey :: "Grid \<Rightarrow> AStarNode \<Rightarrow> int" where
  "nodeKey walkable n = key walkable (node_x n) (node_y n)"

function astarLoop ::
  "Grid \<Rightarrow> Point \<Rightarrow> Point \<Rightarrow> AStarNode list \<Rightarrow> int set \<Rightarrow> (int \<rightharpoonup> Cost) \<Rightarrow> Point list"
where
  "astarLoop walkable start endPt opn closedSet gScores =
     (if opn = [] then []
      else if node_x (opn ! bestIndex opn) = fst endPt \<and> node_y (opn ! bestIndex opn) = snd endPt
        then rev (backtrack start (opn ! bestIndex opn))
      else if nodeKey walkable (opn ! bestIndex opn) \<in> closedSet
        then astarLoop walkable start endPt (removeAt opn (bestIndex opn)) closedSet gScores
      else astarLoop walkable start endPt
             (fst (fold (relax walkable endPt (insert (nodeKey walkable (opn ! bestIndex opn)) closedSet)
                          (opn ! bestIndex opn))
                     dirs (removeAt opn (bestIndex opn), gScores)))
             (insert (nodeKey walkable (opn ! bestIndex opn)) closedSet)
             (snd (fold (relax walkable endPt (insert (nodeKey walkable (opn ! bestIndex opn)) closedSet)
                          (opn ! bestIndex opn))
                     dirs (removeAt opn (bestIndex opn), gScores))))"
  by pat_completeness auto


definition findPath :: "Grid \<Rightarrow> Point \<Rightarrow> Point \<Rightarrow> Point list" where
  "findPath walkable start endPt =
     (if fst start < 0 \<or> fst start \<ge> gridWidth walkable \<or>
         snd start < 0 \<or> snd start \<ge> gridHeight walkable \<or>
         fst endPt < 0 \<or> fst endPt \<ge> gridWidth walkable \<or>
         snd endPt < 0 \<or> snd endPt \<ge> gridHeight walkable \<or>
         \<not> walkableAt walkable (fst endPt) (snd endPt)
      then []
      else if fst start = fst endPt \<and> snd start = snd endPt then []
      else astarLoop walkable start endPt
             [AStarNode (fst start) (snd start) (Cost 0 0)
                (heuristic (fst start) (snd start) (fst endPt) (snd endPt)) None]
             {}
             (Map.empty(key walkable (fst start) (snd start) \<mapsto> Cost 0 0)))"

section \<open>constants.ts\<close>

abbreviation (input) HOME_BASE_SUPPLY :: int where "HOME_BASE_SUPPLY \<equiv> 10"
abbreviation (input) HOME_BASE_DAMAGE :: int where "HOME_BASE_DAMAGE \<equiv> 30"
abbreviation (input) HOME_BASE_RANGE :: real where "HOME_BASE_RANGE \<equiv> 7"
abbreviation (input) HOME_BASE_ATTACK_COOLDOWN :: int where "HOME_BASE_ATTACK_COOLDOWN \<equiv> 20"
abbreviation (input) WORKER_COST :: int where "WORKER_COST \<equiv> 50"
abbreviation (input) WORKER_SUPPLY :: int where "WORKER_SUPPLY \<equiv> 1"
abbreviation (input) WORKER_HP :: int where "WORKER_HP \<equiv> 60"
abbreviation (input) WORKER_SPEED :: real where "WORKER_SPEED \<equiv> 15 / 100"
abbreviation (input) WORKER_CARRY_CAPACITY :: int where "WORKER_CARRY_CAPACITY \<equiv> 10"
abbreviation (input) WORKER_MINE_TICKS :: int where "WORKER_MINE_TICKS \<equiv> 40"
abbreviation (input) WORKER_TRAIN_TICKS :: int where "WORKER_TRAIN_TICKS \<equiv> 30"
abbreviation (input) INFANTRY_COST :: int where "INFANTRY_COST \<equiv> 100"
abbreviation (input) INFANTRY_SUPPLY :: int where "INFANTRY_SUPPLY \<equiv> 2"
abbreviation (input) INFANTRY_HP :: int where "INFANTRY_HP \<equiv> 120"
abbreviation (input) INFANTRY_SPEED :: real where "INFANTRY_SPEED \<equiv> 12 / 100"
abbreviation (input) INFANTRY_DAMAGE :: real where "INFANTRY_DAMAGE \<equiv> 12"
abbreviation (input) INFANTRY_RANGE :: real where "INFANTRY_RANGE \<equiv> 15 / 10"
abbreviation (input) INFANTRY_ATTACK_COOLDOWN :: int where "INFANTRY_ATTACK_COOLDOWN \<equiv> 15"
abbreviation (input) INFANTRY_TRAIN_TICKS :: int where "INFANTRY_TRAIN_TICKS \<equiv> 40"
abbreviation (input) INFANTRY_AGGRO_RANGE :: real where "INFANTRY_AGGRO_RANGE \<equiv> 6"
abbreviation (input) FOCUS_FIRE_BONUS :: real where "FOCUS_FIRE_BONUS \<equiv> 15 / 100"
abbreviation (input) ARCHER_COST :: int where "ARCHER_COST \<equiv> 150"
abbreviation (input) ARCHER_SUPPLY :: int where "ARCHER_SUPPLY \<equiv> 3"
abbreviation (input) ARCHER_HP :: int where "ARCHER_HP \<equiv> 80"
abbreviation (input) ARCHER_SPEED :: real where "ARCHER_SPEED \<equiv> 11 / 100"
abbreviation (input) ARCHER_DAMAGE :: real where "ARCHER_DAMAGE \<equiv> 10"
abbreviation (input) ARCHER_RANGE :: real where "ARCHER_RANGE \<equiv> 5"
abbreviation (input) ARCHER_ATTACK_COOLDOWN :: int where "ARCHER_ATTACK_COOLDOWN \<equiv> 18"
abbreviation (input) ARCHER_TRAIN_TICKS :: int where "ARCHER_TRAIN_TICKS \<equiv> 50"
abbreviation (input) ARCHER_AGGRO_RANGE :: real where "ARCHER_AGGRO_RANGE \<equiv> 7"
abbreviation (input) CAVALRY_COST :: int where "CAVALRY_COST \<equiv> 200"
abbreviation (input) CAVALRY_SUPPLY :: int where "CAVALRY_SUPPLY \<equiv> 4"
abbreviation (input) CAVALRY_HP :: int where "CAVALRY_HP \<equiv> 130"
abbreviation (input) CAVALRY_SPEED :: real where "CAVALRY_SPEED \<equiv> 24 / 100"
abbreviation (input) CAVALRY_DAMAGE :: real where "CAVALRY_DAMAGE \<equiv> 14"
abbreviation (input) CAVALRY_RANGE :: real where "CAVALRY_RANGE \<equiv> 15 / 10"
abbreviation (input) CAVALRY_ATTACK_COOLDOWN :: int where "CAVALRY_ATTACK_COOLDOWN \<equiv> 14"
abbreviation (input) CAVALRY_TRAIN_TICKS :: int where "CAVALRY_TRAIN_TICKS \<equiv> 55"
abbreviation (input) CAVALRY_AGGRO_RANGE :: real where "CAVALRY_AGGRO_RANGE \<equiv> 7"
abbreviation (input) BALLISTA_COST :: int where "BALLISTA_COST \<equiv> 250"
abbreviation (input) BALLISTA_SUPPLY :: int where "BALLISTA_SUPPLY \<equiv> 5"
abbreviation (input) BALLISTA_HP :: int where "BALLISTA_HP \<equiv> 50"
abbreviation (input) BALLISTA_SPEED :: real where "BALLISTA_SPEED \<equiv> 6 / 100"
abbreviation (input) BALLISTA_DAMAGE :: real where "BALLISTA_DAMAGE \<equiv> 40"
abbreviation (input) BALLISTA_RANGE :: real where "BALLISTA_RANGE \<equiv> 10"
abbreviation (input) BALLISTA_ATTACK_COOLDOWN :: int where "BALLISTA_ATTACK_COOLDOWN \<equiv> 30"
abbreviation (input) BALLISTA_TRAIN_TICKS :: int where "BALLISTA_TRAIN_TICKS \<equiv> 70"
abbreviation (input) BALLISTA_AGGRO_RANGE :: real where "BALLISTA_AGGRO_RANGE \<equiv> 12"
abbreviation (input) HOUSE_COST :: int where "HOUSE_COST \<equiv> 100"
abbreviation (input) HOUSE_HP :: int where "HOUSE_HP \<equiv> 400"
abbreviation (input) HOUSE_SUPPLY :: int where "HOUSE_SUPPLY \<equiv> 10"
abbreviation (input) HOUSE_MAX_PER_PLAYER :: nat where "HOUSE_MAX_PER_PLAYER \<equiv> 5"
abbreviation (input) HOUSE_BUILD_TICKS :: int where "HOUSE_BUILD_TICKS \<equiv> 60"
abbreviation (input) HOUSE_TILE_WIDTH :: int where "HOUSE_TILE_WIDTH \<equiv> 2"
abbreviation (input) HOUSE_TILE_HEIGHT :: int where "HOUSE_TILE_HEIGHT \<equiv> 2"
abbreviation (input) BARRACKS_COST :: int where "BARRACKS_COST \<equiv> 200"
abbreviation (input) BARRACKS_HP :: int where "BARRACKS_HP \<equiv> 600"
abbreviation (input) BARRACKS_BUILD_TICKS :: int where "BARRACKS_BUILD_TICKS \<equiv> 80"
abbreviation (input) BARRACKS_TILE_WIDTH :: int where "BARRACKS_TILE_WIDTH \<equiv> 3"
abbreviation (input) BARRACKS_TILE_HEIGHT :: int where "BARRACKS_TILE_HEIGHT \<equiv> 3"
abbreviation (input) RESOURCE_DEPOT_COST :: int where "RESOURCE_DEPOT_COST \<equiv> 150"
abbreviation (input) RESOURCE_DEPOT_HP :: int where "RESOURCE_DEPOT_HP \<equiv> 500"
abbreviation (input) RESOURCE_DEPOT_BUILD_TICKS :: int where "RESOURCE_DEPOT_BUILD_TICKS \<equiv> 50"
abbreviation (input) RESOURCE_DEPOT_TILE_WIDTH :: int where "RESOURCE_DEPOT_TILE_WIDTH \<equiv> 2"
abbreviation (input) RESOURCE_DEPOT_TILE_HEIGHT :: int where "RESOURCE_DEPOT_TILE_HEIGHT \<equiv> 2"
abbreviation (input) TOWER_COST :: int where "TOWER_COST \<equiv> 100"
abbreviation (input) TOWER_HP :: int where "TOWER_HP \<equiv> 500"
abbreviation (input) TOWER_BUILD_TICKS :: int where "TOWER_BUILD_TICKS \<equiv> 60"
abbreviation (input) TOWER_TILE_WIDTH :: int where "TOWER_TILE_WIDTH \<equiv> 2"
abbreviation (input) TOWER_TILE_HEIGHT :: int where "TOWER_TILE_HEIGHT \<equiv> 2"
abbreviation (input) TOWER_DAMAGE :: int where "TOWER_DAMAGE \<equiv> 15"
abbreviation (input) TOWER_RANGE :: real where "TOWER_RANGE \<equiv> 7"
abbreviation (input) TOWER_ATTACK_COOLDOWN :: int where "TOWER_ATTACK_COOLDOWN \<equiv> 20"
abbreviation (input) ARMORY_COST :: int where "ARMORY_COST \<equiv> 250"
abbreviation (input) ARMORY_HP :: int where "ARMORY_HP \<equiv> 600"
abbreviation (input) ARMORY_BUILD_TICKS :: int where "ARMORY_BUILD_TICKS \<equiv> 80"
abbreviation (input) ARMORY_TILE_WIDTH :: int where "ARMORY_TILE_WIDTH \<equiv> 3"
abbreviation (input) ARMORY_TILE_HEIGHT :: int where "ARMORY_TILE_HEIGHT \<equiv> 3"
abbreviation (input) UPGRADE_BASE_COST :: real where "UPGRADE_BASE_COST \<equiv> 100"
abbreviation (input) UPGRADE_COST_SCALE :: real where "UPGRADE_COST_SCALE \<equiv> 2"
abbreviation (input) UPGRADE_DAMAGE_BONUS :: real where "UPGRADE_DAMAGE_BONUS \<equiv> 12 / 100"
abbreviation (input) UPGRADE_HP_BONUS :: real where "UPGRADE_HP_BONUS \<equiv> 10 / 100"
abbreviation (input) MAX_BUILD_DISTANCE :: real where "MAX_BUILD_DISTANCE \<equiv> 3"
abbreviation (input) GOLD_MINE_TILE_WIDTH :: int where "GOLD_MINE_TILE_WIDTH \<equiv> 2"
abbreviation (input) GOLD_MINE_TILE_HEIGHT :: int where "GOLD_MINE_TILE_HEIGHT \<equiv> 2"

text \<open>Upgrade levels are whole numbers (they start at 0 and grow by 1); \<open>Math.pow\<close> with
  such an exponent is \<open>powr\<close>, written with \<open>powi\<close> so that it is defined for every integer.\<close>

definition getUpgradeCost :: "int \<Rightarrow> int" where
  "getUpgradeCost currentLevel = mathRound (UPGRADE_BASE_COST * (UPGRADE_COST_SCALE powi currentLevel))"

definition getUpgradeDamageMultiplier :: "int \<Rightarrow> real" where
  "getUpgradeDamageMultiplier level = (1 + UPGRADE_DAMAGE_BONUS) powi level"

definition getUpgradeHpMultiplier :: "int \<Rightarrow> real" where
  "getUpgradeHpMultiplier level = (1 + UPGRADE_HP_BONUS) powi level"

section \<open>types.ts\<close>

datatype TileType = Grass | Water | Rock | Trees

datatype EntityType =
  HomeBase | Worker | House | Barracks | ResourceDepot | Tower | Armory
  | Infantry | Archer | Cavalry | Ballista

datatype EntityState = Idle | Moving | Gathering | Building | Attacking | Training | Returning

datatype BuildingType = BHouse | BBarracks | BResourceDepot | BTower | BArmory

text \<open>A \<open>BuildingType\<close> is one of five of the \<open>EntityType\<close> strings.\<close>

fun asEntityType :: "BuildingType \<Rightarrow> EntityType" where
  "asEntityType BHouse = House"
| "asEntityType BBarracks = Barracks"
| "asEntityType BResourceDepot = ResourceDepot"
| "asEntityType BTower = Tower"
| "asEntityType BArmory = Armory"

datatype UpgradeableUnit = UInfantry | UArcher | UCavalry

record UpgradeLevels =
  upInfantry :: int
  upArcher :: int
  upCavalry :: int

record Player =
  playerId :: string
  playerName :: string
  color :: string
  faction :: string
  gold :: int
  supplyUsed :: int
  maxSupply :: int
  upgrades :: "UpgradeLevels option"

record TrainOrder =
  unitType :: EntityType
  ticksRemaining :: int

record Entity =
  eid :: string
  etype :: EntityType
  ownerId :: string
  ex :: real
  ey :: real
  hp :: int
  maxHp :: int
  estate :: EntityState
  path :: "Point list option"
  targetId :: "string option"
  trainingQueue :: "TrainOrder list option"
  carriedGold :: "int option"
  buildProgress :: "real option"
  miningProgress :: "real option"
  tileWidth :: "int option"
  tileHeight :: "int option"
  pendingBuild :: "(BuildingType \<times> real \<times> real) option"
  rallyPoint :: "Point option"

record GoldMine =
  mineId :: string
  mineX :: real
  mineY :: real
  goldRemaining :: int
  maxWorkers :: int
  workerIds :: "string list"

text \<open>
  \<open>players\<close> and \<open>entities\<close> are JavaScript objects used as dictionaries. Their keys are
  enumerated in insertion order, so each is an association list: \<open>map_of\<close> reads a key,
  \<open>AList.update\<close> assigns it (in place, or at the end for a new key) and \<open>AList.delete\<close>
  removes it. An entity object is identified with its key.
\<close>

record GameState =
  tickCounter :: int
  mapWidth :: int
  mapHeight :: int
  tiles :: "TileType list list"
  players :: "(string \<times> Player) list"
  entities :: "(string \<times> Entity) list"
  goldMines :: "GoldMine list"

text \<open>A field tested as a condition: \<open>undefined\<close>, \<open>0\<close> and \<open>''\<close> are falsy.\<close>

definition truthyNum :: "int option \<Rightarrow> bool" where
  "truthyNum v = (case v of None \<Rightarrow> False | Some n \<Rightarrow> n \<noteq> 0)"

definition truthyStr :: "string option \<Rightarrow> bool" where
  "truthyStr v = (case v of None \<Rightarrow> False | Some t \<Rightarrow> t \<noteq> [])"

definition hasFootprint :: "Entity \<Rightarrow> bool" where
  "hasFootprint e = (truthyNum (tileWidth e) \<and> truthyNum (tileHeight e))"

definition underConstruction :: "Entity \<Rightarrow> bool" where
  "underConstruction e = (case buildProgress e of None \<Rightarrow> False | Some bp \<Rightarrow> bp < 1)"

definition getEntity :: "GameState \<Rightarrow> string \<Rightarrow> Entity option" where
  "getEntity s k = map_of (entities s) k"

definition setEntity :: "string \<Rightarrow> Entity \<Rightarrow> GameState \<Rightarrow> GameState" where
  "setEntity k e s = s\<lparr>entities := AList.update k e (entities s)\<rparr>"

definition modEntity :: "string \<Rightarrow> (Entity \<Rightarrow> Entity) \<Rightarrow> GameState \<Rightarrow> GameState" where
  "modEntity k upd s = (case getEntity s k of None \<Rightarrow> s | Some e \<Rightarrow> setEntity k (upd e) s)"

definition getPlayer :: "GameState \<Rightarrow> string \<Rightarrow> Player option" where
  "getPlayer s k = map_of (players s) k"

definition setPlayer :: "string \<Rightarrow> Player \<Rightarrow> GameState \<Rightarrow> GameState" where
  "setPlayer k p s = s\<lparr>players := AList.update k p (players s)\<rparr>"

section \<open>combat.ts: recalculateSupply\<close>

definition unitSupplyCost :: "EntityType \<Rightarrow> int" where
  "unitSupplyCost t =
     (if t = Worker then 1 else if t = Infantry then 2 else if t = Archer then 3
      else if t = Cavalry then 4 else 5)"

text \<open>The body of the loop over the entities, for one entity.\<close>

definition countSupply :: "Entity \<Rightarrow> (string \<times> Player) list \<Rightarrow> (string \<times> Player) list" where
  "countSupply e ps =
     (case map_of ps (ownerId e) of
        None \<Rightarrow> ps
      | Some p \<Rightarrow>
          if etype e = HomeBase \<and> hp e > 0
            then AList.update (ownerId e) (p\<lparr>maxSupply := maxSupply p + HOME_BASE_SUPPLY\<rparr>) ps
          else if etype e = House \<and> hp e > 0 \<and> \<not> underConstruction e
            then AList.update (ownerId e) (p\<lparr>maxSupply := maxSupply p + HOUSE_SUPPLY\<rparr>) ps
          else if etype e = Worker \<or> etype e = Infantry \<or> etype e = Archer \<or>
                  etype e = Cavalry \<or> etype e = Ballista
            then AList.update (ownerId e) (p\<lparr>supplyUsed := supplyUsed p + unitSupplyCost (etype e)\<rparr>) ps
          else ps)"

definition recalculateSupply :: "GameState \<Rightarrow> GameState" where
  "recalculateSupply s =
     s\<lparr>players :=
         fold countSupply (map snd (entities s))
           (map (\<lambda>(k, p). (k, p\<lparr>maxSupply := 0, supplyUsed := 0\<rparr>)) (players s))\<rparr>"


section \<open>GameEngine.ts: the walkability grid\<close>

text \<open>
  A function that can raise a \<open>TypeError\<close> (reading a property of \<open>undefined\<close>) returns an
  \<open>option\<close>, \<open>None\<close> being the exception. \<open>buildWalkableGrid\<close> reads \<open>state.tiles[y][x]\<close> for
  every \<open>y < mapHeight\<close>: a missing row raises, a missing cell compares unequal to \<open>'grass'\<close>.
\<close>

definition grassRow :: "int \<Rightarrow> TileType list \<Rightarrow> bool list" where
  "grassRow w row = map (\<lambda>tx. jsGet row tx = Some Grass) [0 .. w - 1]"

fun grassRows :: "int \<Rightarrow> TileType list list \<Rightarrow> int list \<Rightarrow> Grid option" where
  "grassRows w ts [] = Some []"
| "grassRows w ts (ty # tys) =
     (case jsGet ts ty of
        None \<Rightarrow> None
      | Some row \<Rightarrow> (case grassRows w ts tys of
                       None \<Rightarrow> None
                     | Some rest \<Rightarrow> Some (grassRow w row # rest)))"

text \<open>\<open>walkable[ty][tx] = false\<close> for the tiles of a footprint that lie on the map.\<close>

definition blockTile :: "int \<Rightarrow> int \<Rightarrow> int \<Rightarrow> int \<Rightarrow> Grid \<Rightarrow> Grid" where
  "blockTile w h tx ty walkable =
     (if tx \<ge> 0 \<and> tx < w \<and> ty \<ge> 0 \<and> ty < h
      then walkable[nat ty := (walkable ! nat ty)[nat tx := False]]
      else walkable)"

definition blockFootprint ::
  "int \<Rightarrow> int \<Rightarrow> real \<Rightarrow> real \<Rightarrow> int \<Rightarrow> int \<Rightarrow> Grid \<Rightarrow> Grid" where
  "blockFootprint w h fx fy fw fh walkable =
     fold (\<lambda>dy. fold (\<lambda>dx. blockTile w h (mathRound fx + dx) (mathRound fy + dy)) [0 .. fw - 1])
          [0 .. fh - 1] walkable"

definition tileSpan :: "int option \<Rightarrow> int" where
  "tileSpan v = (case v of None \<Rightarrow> 0 | Some n \<Rightarrow> n)"

definition buildWalkableGrid :: "GameState \<Rightarrow> Grid option" where
  "buildWalkableGrid s =
     (case grassRows (mapWidth s) (tiles s) [0 .. mapHeight s - 1] of
        None \<Rightarrow> None
      | Some walkable \<Rightarrow>
          Some (fold (\<lambda>mine. blockFootprint (mapWidth s) (mapHeight s) (mineX mine) (mineY mine)
                                GOLD_MINE_TILE_WIDTH GOLD_MINE_TILE_HEIGHT)
                     (goldMines s)
                  (fold (\<lambda>entity. if hasFootprint entity
                                    then blockFootprint (mapWidth s) (mapHeight s) (ex entity) (ey entity)
                                           (tileSpan (tileWidth entity)) (tileSpan (tileHeight entity))
                                    else id)
                        (map snd (entities s)) walkable)))"

text \<open>The target of \<open>findAllAdjacentWalkable\<close>: a position and an optional footprint.\<close>

definition perimeterOffsets :: "int \<Rightarrow> int \<Rightarrow> (int \<times> int) list" where
  "perimeterOffsets w h =
     filter (\<lambda>(dx, dy). \<not> (dx \<ge> 0 \<and> dx < w \<and> dy \<ge> 0 \<and> dy < h))
       (concat (map (\<lambda>dx. map (\<lambda>dy. (dx, dy)) [-1 .. h]) [-1 .. w]))"

definition findAllAdjacentWalkable ::
  "Grid \<Rightarrow> real \<Rightarrow> real \<Rightarrow> int option \<Rightarrow> int option \<Rightarrow> Point list" where
  "findAllAdjacentWalkable walkable targetX targetY tw th =
     (let w = (case tw of None \<Rightarrow> 2 | Some n \<Rightarrow> n);
          h = (case th of None \<Rightarrow> 2 | Some n \<Rightarrow> n)
      in filter (\<lambda>(tx, ty). tx \<ge> 0 \<and> tx < gridWidth walkable \<and> ty \<ge> 0 \<and> ty < gridHeight walkable \<and>
                              walkableAt walkable tx ty)
           (map (\<lambda>(dx, dy). (mathRound targetX + dx, mathRound targetY + dy))
                (perimeterOffsets w h)))"

definition findAdjacentWalkable ::
  "Grid \<Rightarrow> real \<Rightarrow> real \<Rightarrow> int option \<Rightarrow> int option \<Rightarrow> Point option" where
  "findAdjacentWalkable walkable targetX targetY tw th =
     (case findAllAdjacentWalkable walkable targetX targetY tw th of
        [] \<Rightarrow> None
      | c # _ \<Rightarrow> Some c)"

section \<open>combat.ts\<close>

text \<open>
  \<open>attackCooldowns\<close> is a \<open>Map\<close> created once when the module is loaded; every engine in the
  process calls \<open>processCombat\<close> on this one map. The functions below take it as an argument
  and return it.
\<close>

type_synonym Cooldowns = "(string \<times> int) list"

definition getCooldown :: "Cooldowns \<Rightarrow> string \<Rightarrow> int" where
  "getCooldown cds k = (case map_of cds k of None \<Rightarrow> 0 | Some cd \<Rightarrow> cd)"

definition tickDownCooldowns :: "Cooldowns \<Rightarrow> Cooldowns" where
  "tickDownCooldowns cds = map (\<lambda>(k, cd). (k, cd - 1)) (filter (\<lambda>(k, cd). cd > 0) cds)"

definition isCombatUnit :: "EntityType \<Rightarrow> bool" where
  "isCombatUnit t = (t = Infantry \<or> t = Archer \<or> t = Cavalry \<or> t = Ballista)"

definition getAttackRange :: "Entity \<Rightarrow> real" where
  "getAttackRange e =
     (case etype e of Archer \<Rightarrow> ARCHER_RANGE | Cavalry \<Rightarrow> CAVALRY_RANGE
      | Ballista \<Rightarrow> BALLISTA_RANGE | _ \<Rightarrow> INFANTRY_RANGE)"

definition getAttackDamage :: "Entity \<Rightarrow> Entity \<Rightarrow> real" where
  "getAttackDamage e target =
     (case etype e of Archer \<Rightarrow> ARCHER_DAMAGE | Cavalry \<Rightarrow> CAVALRY_DAMAGE
      | Ballista \<Rightarrow> (if \<not> truthyNum (tileWidth target) then 0 else BALLISTA_DAMAGE)
      | _ \<Rightarrow> INFANTRY_DAMAGE)"

definition getAttackCooldown :: "Entity \<Rightarrow> int" where
  "getAttackCooldown e =
     (case etype e of Archer \<Rightarrow> ARCHER_ATTACK_COOLDOWN | Cavalry \<Rightarrow> CAVALRY_ATTACK_COOLDOWN
      | Ballista \<Rightarrow> BALLISTA_ATTACK_COOLDOWN | _ \<Rightarrow> INFANTRY_ATTACK_COOLDOWN)"

definition getAggroRange :: "Entity \<Rightarrow> real" where
  "getAggroRange e =
     (case etype e of Archer \<Rightarrow> ARCHER_AGGRO_RANGE | Cavalry \<Rightarrow> CAVALRY_AGGRO_RANGE
      | Ballista \<Rightarrow> BALLISTA_AGGRO_RANGE | _ \<Rightarrow> INFANTRY_AGGRO_RANGE)"

definition getAttackerUpgradeLevel :: "GameState \<Rightarrow> Entity \<Rightarrow> int" where
  "getAttackerUpgradeLevel s e =
     (case getPlayer s (ownerId e) of
        None \<Rightarrow> 0
      | Some p \<Rightarrow>
          (case upgrades p of
             None \<Rightarrow> 0
           | Some u \<Rightarrow>
               if etype e = Infantry then upInfantry u
               else if etype e = Archer then upArcher u
               else if etype e = Cavalry then upCavalry u
               else 0))"

definition tileDistance :: "real \<Rightarrow> real \<Rightarrow> real \<Rightarrow> real \<Rightarrow> real" where
  "tileDistance ax ay bx by = sqrt ((ax - bx) * (ax - bx) + (ay - by) * (ay - by))"

text \<open>Distance from the point \<open>(ax, ay)\<close> to the footprint rectangle at \<open>(bx, by)\<close>.\<close>

definition rectDistance :: "real \<Rightarrow> real \<Rightarrow> real \<Rightarrow> real \<Rightarrow> int \<Rightarrow> int \<Rightarrow> real" where
  "rectDistance ax ay bx by bw bh =
     (let cx = max bx (min (bx + of_int bw - 1) ax);
          cy = max by (min (by + of_int bh - 1) ay)
      in sqrt ((ax - cx) ^ 2 + (ay - cy) ^ 2))"

definition distToEntity :: "Entity \<Rightarrow> Entity \<Rightarrow> real" where
  "distToEntity a b =
     (if hasFootprint b
      then rectDistance (ex a) (ey a) (ex b) (ey b) (tileSpan (tileWidth b)) (tileSpan (tileHeight b))
      else tileDistance (ex a) (ey a) (ex b) (ey b))"

text \<open>The two nearest-enemy scans keep the first entity at the least distance; the
  accumulator \<open>None\<close> is \<open>nearest = null, nearestDist = Infinity\<close>.\<close>

definition closer :: "real \<Rightarrow> ('a \<times> real) option \<Rightarrow> bool" where
  "closer d best = (case best of None \<Rightarrow> True | Some (_, bestDist) \<Rightarrow> d < bestDist)"

definition findNearestEnemy :: "Entity \<Rightarrow> Entity list \<Rightarrow> Entity option" where
  "findNearestEnemy entity allEntities =
     map_option fst
       (fold (\<lambda>other best.
                if ownerId other = ownerId entity then best
                else if hp other \<le> 0 then best
                else (let d = tileDistance (ex entity) (ey entity) (ex other) (ey other)
                      in if closer d best then Some (other, d) else best))
             allEntities None)"

definition findNearestEnemyBuilding :: "Entity \<Rightarrow> Entity list \<Rightarrow> Entity option" where
  "findNearestEnemyBuilding entity allEntities =
     map_option fst
       (fold (\<lambda>other best.
                if ownerId other = ownerId entity then best
                else if hp other \<le> 0 then best
                else if \<not> hasFootprint other then best
                else (let d = distToEntity entity other
                      in if closer d best then Some (other, d) else best))
             allEntities None)"

text \<open>Auto-aggro, for the entity stored under key \<open>k\<close>.\<close>

definition autoAggro :: "string \<Rightarrow> GameState \<Rightarrow> GameState" where
  "autoAggro k s =
     (case getEntity s k of
        None \<Rightarrow> s
      | Some entity \<Rightarrow>
          if \<not> isCombatUnit (etype entity) then s
          else if estate entity \<noteq> Idle then s
          else
            (case (if etype entity = Ballista
                   then findNearestEnemyBuilding entity (map snd (entities s))
                   else findNearestEnemy entity (map snd (entities s))) of
               None \<Rightarrow> s
             | Some nearest \<Rightarrow>
                 if tileDistance (ex entity) (ey entity) (ex nearest) (ey nearest)
                      \<le> getAggroRange entity
                 then setEntity k (entity\<lparr>targetId := Some (eid nearest), estate := Attacking\<rparr>) s
                 else s))"

text \<open>The target scan of a tower or home base centred at \<open>(centerX, centerY)\<close>.\<close>

definition buildingTarget ::
  "Entity \<Rightarrow> real \<Rightarrow> real \<Rightarrow> real \<Rightarrow> (string \<times> Entity) list \<Rightarrow> (string \<times> Entity) option" where
  "buildingTarget entity centerX centerY bRange allEntities =
     map_option fst
       (fold (\<lambda>(ok, other) best.
                if ownerId other = ownerId entity then best
                else if hp other \<le> 0 then best
                else (let d = (if hasFootprint other
                               then rectDistance centerX centerY (ex other) (ey other)
                                      (tileSpan (tileWidth other)) (tileSpan (tileHeight other))
                               else sqrt ((centerX - ex other) ^ 2 + (centerY - ey other) ^ 2))
                      in if d \<le> bRange \<and> closer d best then Some ((ok, other), d) else best))
             allEntities None)"

definition defensiveAttack :: "string \<Rightarrow> Cooldowns \<times> GameState \<Rightarrow> Cooldowns \<times> GameState" where
  "defensiveAttack k acc =
     (case acc of (cds, s) \<Rightarrow>
      (case getEntity s k of
         None \<Rightarrow> acc
       | Some entity \<Rightarrow>
           if etype entity \<noteq> Tower \<and> etype entity \<noteq> HomeBase then acc
           else if hp entity \<le> 0 then acc
           else if underConstruction entity then acc
           else if getCooldown cds (eid entity) > 0 then acc
           else
             (let bDamage = (if etype entity = HomeBase then HOME_BASE_DAMAGE else TOWER_DAMAGE);
                  bRange = (if etype entity = HomeBase then HOME_BASE_RANGE else TOWER_RANGE);
                  bCooldown = (if etype entity = HomeBase then HOME_BASE_ATTACK_COOLDOWN
                               else TOWER_ATTACK_COOLDOWN);
                  centerX = ex entity
                            + of_int (case tileWidth entity of None \<Rightarrow> 2 | Some n \<Rightarrow> n) / 2;
                  centerY = ey entity
                            + of_int (case tileHeight entity of None \<Rightarrow> 2 | Some n \<Rightarrow> n) / 2
              in (case buildingTarget entity centerX centerY bRange (entities s) of
                    Some (tk, bestTarget) \<Rightarrow>
                      (AList.update (eid entity) bCooldown cds,
                       modEntity k (\<lambda>e. e\<lparr>targetId := Some (eid bestTarget)\<rparr>)
                         (modEntity tk (\<lambda>t. t\<lparr>hp := hp t - bDamage\<rparr>) s))
                  | None \<Rightarrow> (cds, modEntity k (\<lambda>e. e\<lparr>targetId := None\<rparr>) s)))))"


text \<open>A loop whose body can raise: the first exception ends it.\<close>

fun foldOpt :: "('a \<Rightarrow> 'b \<Rightarrow> 'b option) \<Rightarrow> 'a list \<Rightarrow> 'b \<Rightarrow> 'b option" where
  "foldOpt body [] acc = Some acc"
| "foldOpt body (v # vs) acc =
     (case body v acc of None \<Rightarrow> None | Some acc' \<Rightarrow> foldOpt body vs acc')"

text \<open>Pass 1. \<open>attackersPerTarget\<close> is a \<open>Map\<close> from target id to the ids of the attackers
  that hit it this tick, in insertion order.\<close>

type_synonym AttackersPerTarget = "(string \<times> string list) list"

definition registerAttacker :: "string \<Rightarrow> string \<Rightarrow> AttackersPerTarget \<Rightarrow> AttackersPerTarget" where
  "registerAttacker tid attackerId apt =
     AList.update tid ((case map_of apt tid of None \<Rightarrow> [] | Some l \<Rightarrow> l) @ [attackerId]) apt"

definition attackDestination :: "Grid \<Rightarrow> Entity \<Rightarrow> Entity \<Rightarrow> Point option" where
  "attackDestination walkable entity target =
     (if hasFootprint target
      then (case sort_key (\<lambda>(ax, ay). (of_int ax - ex entity) ^ 2 + (of_int ay - ey entity) ^ 2)
                   (findAllAdjacentWalkable walkable (ex target) (ey target)
                      (tileWidth target) (tileHeight target)) of
              [] \<Rightarrow> None
            | c # _ \<Rightarrow> Some c)
      else Some (mathRound (ex target), mathRound (ey target)))"

definition loseTarget :: "Entity \<Rightarrow> Entity" where
  "loseTarget e = e\<lparr>targetId := None, estate := Idle\<rparr>"

definition hasPath :: "Entity \<Rightarrow> bool" where
  "hasPath e = (case path e of None \<Rightarrow> False | Some p \<Rightarrow> p \<noteq> [])"

definition resolveAttack ::
  "Cooldowns \<Rightarrow> string \<Rightarrow> AttackersPerTarget \<times> GameState \<Rightarrow>
   (AttackersPerTarget \<times> GameState) option" where
  "resolveAttack cds k acc =
     (case acc of (apt, s) \<Rightarrow>
      (case getEntity s k of
         None \<Rightarrow> Some acc
       | Some entity \<Rightarrow>
           if estate entity \<noteq> Attacking then Some acc
           else if \<not> isCombatUnit (etype entity) then Some acc
           else
             (case targetId entity of
                None \<Rightarrow> Some (apt, setEntity k (entity\<lparr>estate := Idle\<rparr>) s)
              | Some tid \<Rightarrow>
                  if tid = [] then Some (apt, setEntity k (entity\<lparr>estate := Idle\<rparr>) s)
                  else
                    (case getEntity s tid of
                       None \<Rightarrow> Some (apt, setEntity k (loseTarget entity) s)
                     | Some target \<Rightarrow>
                         if hp target \<le> 0 then Some (apt, setEntity k (loseTarget entity) s)
                         else if distToEntity entity target \<le> getAttackRange entity
                           then Some (if getCooldown cds (eid entity) \<le> 0
                                      then registerAttacker tid (eid entity) apt else apt,
                                      setEntity k (entity\<lparr>path := None\<rparr>) s)
                         else if hasPath entity then Some acc
                         else
                           (case buildWalkableGrid s of
                              None \<Rightarrow> None
                            | Some walkable \<Rightarrow>
                                (case attackDestination walkable entity target of
                                   None \<Rightarrow> Some (apt, setEntity k (loseTarget entity) s)
                                 | Some destination \<Rightarrow>
                                     if (mathRound (ex entity), mathRound (ey entity)) = destination
                                     then Some (apt, setEntity k (entity\<lparr>path := None\<rparr>) s)
                                     else
                                       (case findPath walkable
                                               (mathRound (ex entity), mathRound (ey entity))
                                               destination of
                                          [] \<Rightarrow> Some (apt, setEntity k (loseTarget entity) s)
                                        | wp # wps \<Rightarrow>
                                            Some (apt,
                                              setEntity k (entity\<lparr>path := Some (wp # wps)\<rparr>) s))))))))"

text \<open>Pass 2: one attacker's hit on the target stored under \<open>targetKey\<close>.\<close>

definition strike ::
  "string \<Rightarrow> real \<Rightarrow> string \<Rightarrow> Cooldowns \<times> GameState \<Rightarrow> Cooldowns \<times> GameState" where
  "strike targetKey multiplier attackerId acc =
     (case acc of (cds, s) \<Rightarrow>
      (case getEntity s attackerId of
         None \<Rightarrow> acc
       | Some attacker \<Rightarrow>
           (case getEntity s targetKey of
              None \<Rightarrow> acc
            | Some target \<Rightarrow>
                (let baseDmg = getAttackDamage attacker target;
                     cooldown = getAttackCooldown attacker;
                     upgradeLevel = getAttackerUpgradeLevel s attacker;
                     upgradeMult = (if upgradeLevel > 0 then getUpgradeDamageMultiplier upgradeLevel
                                    else 1)
                 in (AList.update attackerId cooldown cds,
                     setEntity targetKey
                       (target\<lparr>hp := hp target - mathRound (baseDmg * multiplier * upgradeMult)\<rparr>)
                       s)))))"

definition applyBatch ::
  "string \<times> string list \<Rightarrow> Cooldowns \<times> GameState \<Rightarrow> Cooldowns \<times> GameState" where
  "applyBatch batch acc =
     (case batch of (targetKey, attackerIds) \<Rightarrow>
      (case getEntity (snd acc) targetKey of
         None \<Rightarrow> acc
       | Some target \<Rightarrow>
           if hp target \<le> 0 then acc
           else fold (strike targetKey
                        (1 + FOCUS_FIRE_BONUS * (of_nat (length attackerIds) - 1)))
                     attackerIds acc))"

definition applyBatchedDamage ::
  "AttackersPerTarget \<Rightarrow> Cooldowns \<times> GameState \<Rightarrow> Cooldowns \<times> GameState" where
  "applyBatchedDamage apt acc = fold applyBatch apt acc"

text \<open>Removal of the dead.\<close>

definition deadIds :: "GameState \<Rightarrow> string list" where
  "deadIds s = map eid (filter (\<lambda>e. hp e \<le> 0) (map snd (entities s)))"

definition removeDead :: "string \<Rightarrow> Cooldowns \<times> GameState \<Rightarrow> Cooldowns \<times> GameState" where
  "removeDead i acc =
     (case acc of (cds, s) \<Rightarrow>
      (case getEntity s i of
         None \<Rightarrow> acc
       | Some dead \<Rightarrow> (AList.delete i cds, s\<lparr>entities := AList.delete i (entities s)\<rparr>)))"

definition removeDeadEntities :: "Cooldowns \<times> GameState \<Rightarrow> Cooldowns \<times> GameState" where
  "removeDeadEntities acc =
     (case fold removeDead (deadIds (snd acc)) acc of
        (cds, s) \<Rightarrow> (cds, if deadIds (snd acc) \<noteq> [] then recalculateSupply s else s))"

definition processCombat :: "Cooldowns \<Rightarrow> GameState \<Rightarrow> (Cooldowns \<times> GameState) option" where
  "processCombat cds s =
     (let ks = map fst (entities s);
          aggro = fold autoAggro ks s;
          defended = fold defensiveAttack ks (tickDownCooldowns cds, aggro)
      in (case foldOpt (resolveAttack (fst defended)) ks ([], snd defended) of
            None \<Rightarrow> None
          | Some (apt, resolved) \<Rightarrow>
              Some (removeDeadEntities (applyBatchedDamage apt (fst defended, resolved)))))"

definition resetCombat :: "Cooldowns \<Rightarrow> Cooldowns" where
  "resetCombat cds = []"

section \<open>movement.ts\<close>

definition getSpeed :: "Entity \<Rightarrow> real" where
  "getSpeed e =
     (case etype e of Worker \<Rightarrow> WORKER_SPEED | Infantry \<Rightarrow> INFANTRY_SPEED
      | Archer \<Rightarrow> ARCHER_SPEED | Cavalry \<Rightarrow> CAVALRY_SPEED | Ballista \<Rightarrow> BALLISTA_SPEED
      | _ \<Rightarrow> 0)"

text \<open>The \<open>while\<close> loop of \<open>processMovement\<close>: the budget left, the position and the path.\<close>

fun advance :: "real \<Rightarrow> real \<Rightarrow> real \<Rightarrow> Point list \<Rightarrow> real \<times> real \<times> Point list" where
  "advance remaining px py [] = (px, py, [])"
| "advance remaining px py ((tx, ty) # rest) =
     (if remaining > 0
      then (let dx = of_int tx - px;
                dy = of_int ty - py;
                dist = sqrt (dx * dx + dy * dy);
                epsilon = 1 / 100
            in if dist \<le> remaining + epsilon
               then advance (remaining - dist) (of_int tx) (of_int ty) rest
               else (px + dx * (remaining / dist), py + dy * (remaining / dist), (tx, ty) # rest))
      else (px, py, (tx, ty) # rest))"

definition moveEntity :: "Entity \<Rightarrow> Entity" where
  "moveEntity entity =
     (if \<not> hasPath entity then entity
      else if estate entity \<noteq> Moving \<and> estate entity \<noteq> Returning \<and> estate entity \<noteq> Attacking
        then entity
      else if getSpeed entity \<le> 0 then entity
      else
        (case advance (getSpeed entity) (ex entity) (ey entity)
                (case path entity of None \<Rightarrow> [] | Some p \<Rightarrow> p) of
           (nx, ny, p') \<Rightarrow>
             (if p' = [] \<and> estate entity = Moving
              then entity\<lparr>ex := nx, ey := ny, path := Some p', estate := Idle\<rparr>
              else entity\<lparr>ex := nx, ey := ny, path := Some p'\<rparr>)))"

definition processMovement :: "GameState \<Rightarrow> GameState" where
  "processMovement s = s\<lparr>entities := map (\<lambda>(k, e). (k, moveEntity e)) (entities s)\<rparr>"


section \<open>economy.ts\<close>

text \<open>
  \<open>gatherTimers\<close> is, like \<open>attackCooldowns\<close>, one \<open>Map\<close> per process. \<open>uuid()\<close> is the
  source of fresh ids: a sequence of strings of which every call takes the first.
\<close>

type_synonym GatherTimers = "(string \<times> int) list"

type_synonym UuidSource = "nat \<Rightarrow> string"

definition nextUuid :: "UuidSource \<Rightarrow> UuidSource" where
  "nextUuid ids = (\<lambda>n. ids (Suc n))"

definition getBuildTicks :: "EntityType \<Rightarrow> int" where
  "getBuildTicks t =
     (case t of House \<Rightarrow> HOUSE_BUILD_TICKS | Barracks \<Rightarrow> BARRACKS_BUILD_TICKS
      | ResourceDepot \<Rightarrow> RESOURCE_DEPOT_BUILD_TICKS | Tower \<Rightarrow> TOWER_BUILD_TICKS
      | Armory \<Rightarrow> ARMORY_BUILD_TICKS | _ \<Rightarrow> 60)"

record BuildingStats =
  statCost :: int
  statHp :: int
  statTileW :: int
  statTileH :: int

fun getBuildingStats :: "BuildingType \<Rightarrow> BuildingStats" where
  "getBuildingStats BHouse =
     \<lparr>statCost = HOUSE_COST, statHp = HOUSE_HP, statTileW = HOUSE_TILE_WIDTH,
      statTileH = HOUSE_TILE_HEIGHT\<rparr>"
| "getBuildingStats BBarracks =
     \<lparr>statCost = BARRACKS_COST, statHp = BARRACKS_HP, statTileW = BARRACKS_TILE_WIDTH,
      statTileH = BARRACKS_TILE_HEIGHT\<rparr>"
| "getBuildingStats BResourceDepot =
     \<lparr>statCost = RESOURCE_DEPOT_COST, statHp = RESOURCE_DEPOT_HP,
      statTileW = RESOURCE_DEPOT_TILE_WIDTH, statTileH = RESOURCE_DEPOT_TILE_HEIGHT\<rparr>"
| "getBuildingStats BTower =
     \<lparr>statCost = TOWER_COST, statHp = TOWER_HP, statTileW = TOWER_TILE_WIDTH,
      statTileH = TOWER_TILE_HEIGHT\<rparr>"
| "getBuildingStats BArmory =
     \<lparr>statCost = ARMORY_COST, statHp = ARMORY_HP, statTileW = ARMORY_TILE_WIDTH,
      statTileH = ARMORY_TILE_HEIGHT\<rparr>"

definition getUnitHp :: "EntityType \<Rightarrow> int" where
  "getUnitHp t =
     (case t of Worker \<Rightarrow> WORKER_HP | Infantry \<Rightarrow> INFANTRY_HP | Archer \<Rightarrow> ARCHER_HP
      | Cavalry \<Rightarrow> CAVALRY_HP | Ballista \<Rightarrow> BALLISTA_HP | _ \<Rightarrow> 100)"

record UnitTrainStats =
  trainCost :: int
  trainSupplyCost :: int
  trainTicks :: int

definition getUnitTrainStats :: "EntityType \<Rightarrow> UnitTrainStats" where
  "getUnitTrainStats t =
     (case t of
        Worker \<Rightarrow> \<lparr>trainCost = WORKER_COST, trainSupplyCost = WORKER_SUPPLY,
                    trainTicks = WORKER_TRAIN_TICKS\<rparr>
      | Infantry \<Rightarrow> \<lparr>trainCost = INFANTRY_COST, trainSupplyCost = INFANTRY_SUPPLY,
                      trainTicks = INFANTRY_TRAIN_TICKS\<rparr>
      | Archer \<Rightarrow> \<lparr>trainCost = ARCHER_COST, trainSupplyCost = ARCHER_SUPPLY,
                    trainTicks = ARCHER_TRAIN_TICKS\<rparr>
      | Cavalry \<Rightarrow> \<lparr>trainCost = CAVALRY_COST, trainSupplyCost = CAVALRY_SUPPLY,
                     trainTicks = CAVALRY_TRAIN_TICKS\<rparr>
      | Ballista \<Rightarrow> \<lparr>trainCost = BALLISTA_COST, trainSupplyCost = BALLISTA_SUPPLY,
                      trainTicks = BALLISTA_TRAIN_TICKS\<rparr>
      | _ \<Rightarrow> \<lparr>trainCost = 0, trainSupplyCost = 0, trainTicks = 0\<rparr>)"

definition getPlayerUpgradeLevel :: "Player option \<Rightarrow> EntityType \<Rightarrow> int" where
  "getPlayerUpgradeLevel player t =
     (case player of
        None \<Rightarrow> 0
      | Some p \<Rightarrow>
          (case upgrades p of
             None \<Rightarrow> 0
           | Some u \<Rightarrow>
               if t = Infantry then upInfantry u
               else if t = Archer then upArcher u
               else if t = Cavalry then upCavalry u
               else 0))"

subsection \<open>Construction\<close>

definition constructStep :: "Entity \<Rightarrow> Entity" where
  "constructStep entity =
     (case buildProgress entity of
        None \<Rightarrow> entity
      | Some bp \<Rightarrow>
          if bp \<ge> 1 then entity
          else if getBuildTicks (etype entity) \<le> 0 then entity
          else if bp + 1 / of_int (getBuildTicks (etype entity)) \<ge> 1
            then entity\<lparr>buildProgress := Some 1, estate := Idle\<rparr>
          else entity\<lparr>buildProgress := Some (bp + 1 / of_int (getBuildTicks (etype entity)))\<rparr>)"

definition completesNow :: "Entity \<Rightarrow> bool" where
  "completesNow entity =
     (case buildProgress entity of
        None \<Rightarrow> False
      | Some bp \<Rightarrow> bp < 1 \<and> getBuildTicks (etype entity) > 0 \<and>
                   bp + 1 / of_int (getBuildTicks (etype entity)) \<ge> 1)"

text \<open>\<open>processConstruction\<close> returns the new state and \<open>anyCompleted\<close>.\<close>

definition processConstruction :: "GameState \<Rightarrow> GameState \<times> bool" where
  "processConstruction s =
     (s\<lparr>entities := map (\<lambda>(k, e). (k, constructStep e)) (entities s)\<rparr>,
      list_ex (\<lambda>(k, e). completesNow e) (entities s))"

subsection \<open>Training\<close>

definition newUnit :: "string \<Rightarrow> EntityType \<Rightarrow> string \<Rightarrow> Point \<Rightarrow> int \<Rightarrow> Entity" where
  "newUnit newId t owner spawnPos unitHp =
     \<lparr>eid = newId, etype = t, ownerId = owner,
      ex = of_int (fst spawnPos), ey = of_int (snd spawnPos),
      hp = unitHp, maxHp = unitHp, estate = Idle,
      path = None, targetId = None, trainingQueue = None, carriedGold = None,
      buildProgress = None, miningProgress = None, tileWidth = None, tileHeight = None,
      pendingBuild = None, rallyPoint = None\<rparr>"

text \<open>The unit sent to the rally point of its building, when that has one and a path exists.\<close>

definition rallied :: "Grid \<Rightarrow> Point \<Rightarrow> Point option \<Rightarrow> Entity \<Rightarrow> Entity" where
  "rallied walkable spawnPos rally unit =
     (case rally of
        None \<Rightarrow> unit
      | Some dest \<Rightarrow>
          if fst spawnPos \<noteq> fst dest \<or> snd spawnPos \<noteq> snd dest
          then (case findPath walkable spawnPos dest of
                  [] \<Rightarrow> unit
                | wp # wps \<Rightarrow> unit\<lparr>path := Some (wp # wps), estate := Moving\<rparr>)
          else unit)"

definition popQueue :: "Entity \<Rightarrow> Entity" where
  "popQueue building =
     (case trainingQueue building of
        None \<Rightarrow> building
      | Some q \<Rightarrow> if tl q = [] then building\<lparr>trainingQueue := Some (tl q), estate := Idle\<rparr>
                  else building\<lparr>trainingQueue := Some (tl q)\<rparr>)"

definition trainStep :: "string \<Rightarrow> UuidSource \<times> GameState \<Rightarrow> (UuidSource \<times> GameState) option" where
  "trainStep k acc =
     (case acc of (ids, s) \<Rightarrow>
      (case getEntity s k of
         None \<Rightarrow> Some acc
       | Some building \<Rightarrow>
           (case trainingQueue building of
              None \<Rightarrow> Some acc
            | Some [] \<Rightarrow> Some acc
            | Some (order # orders) \<Rightarrow>
                if underConstruction building then Some acc
                else if ticksRemaining order - 1 > 0
                  then Some (ids, setEntity k
                          (building\<lparr>trainingQueue :=
                             Some (order\<lparr>ticksRemaining := ticksRemaining order - 1\<rparr> # orders)\<rparr>) s)
                else
                  (case buildWalkableGrid s of
                     None \<Rightarrow> None
                   | Some walkable \<Rightarrow>
                       (case findAdjacentWalkable walkable (ex building) (ey building)
                               (tileWidth building) (tileHeight building) of
                          None \<Rightarrow>
                            Some (ids, setEntity k
                                    (popQueue (building\<lparr>trainingQueue :=
                                       Some (order\<lparr>ticksRemaining := ticksRemaining order - 1\<rparr>
                                             # orders)\<rparr>)) s)
                        | Some spawnPos \<Rightarrow>
                            (let level = getPlayerUpgradeLevel (getPlayer s (ownerId building))
                                           (unitType order);
                                 unitHp = (if level > 0
                                           then mathRound (of_int (getUnitHp (unitType order))
                                                           * getUpgradeHpMultiplier level)
                                           else getUnitHp (unitType order));
                                 unit = newUnit (ids 0) (unitType order) (ownerId building)
                                          spawnPos unitHp;
                                 spawned = setEntity (ids 0) unit s
                             in (case (case rallyPoint building of
                                         None \<Rightarrow> Some spawned
                                       | Some dest \<Rightarrow>
                                           (case buildWalkableGrid spawned of
                                              None \<Rightarrow> None
                                            | Some walkable' \<Rightarrow>
                                                Some (setEntity (ids 0)
                                                        (rallied walkable' spawnPos (Some dest) unit)
                                                        spawned))) of
                                   None \<Rightarrow> None
                                 | Some s' \<Rightarrow>
                                     Some (nextUuid ids,
                                           modEntity k
                                             (\<lambda>b. popQueue (b\<lparr>trainingQueue :=
                                                     Some (order\<lparr>ticksRemaining :=
                                                                   ticksRemaining order - 1\<rparr>
                                                           # orders)\<rparr>))
                                             s'))))))))"

definition processTraining :: "UuidSource \<times> GameState \<Rightarrow> (UuidSource \<times> GameState) option" where
  "processTraining acc = foldOpt trainStep (map fst (entities (snd acc))) acc"


subsection \<open>Placement\<close>

text \<open>Indexing an array with a number that need not be whole: \<open>tiles[2.5]\<close> is \<open>undefined\<close>.\<close>

definition jsGetNum :: "'a list \<Rightarrow> real \<Rightarrow> 'a option" where
  "jsGetNum xs r = (if r = of_int \<lfloor>r\<rfloor> then jsGet xs \<lfloor>r\<rfloor> else None)"

definition occupies :: "real \<Rightarrow> real \<Rightarrow> Entity \<Rightarrow> bool" where
  "occupies tx ty e =
     (hasFootprint e \<and>
      tx \<ge> ex e \<and> tx < ex e + of_int (tileSpan (tileWidth e)) \<and>
      ty \<ge> ey e \<and> ty < ey e + of_int (tileSpan (tileHeight e)))"

text \<open>The tiles of the footprint in the order of the two nested loops. Reading
  \<open>state.tiles[ty][tx]\<close> raises when the row \<open>state.tiles[ty]\<close> is \<open>undefined\<close>.\<close>

fun placementScan :: "GameState \<Rightarrow> (real \<times> real) list \<Rightarrow> bool option" where
  "placementScan s [] = Some True"
| "placementScan s ((tx, ty) # rest) =
     (if tx < 0 \<or> tx \<ge> of_int (mapWidth s) \<or> ty < 0 \<or> ty \<ge> of_int (mapHeight s) then Some False
      else (case jsGetNum (tiles s) ty of
              None \<Rightarrow> None
            | Some row \<Rightarrow>
                if jsGetNum row tx \<noteq> Some Grass then Some False
                else if list_ex (occupies tx ty) (map snd (entities s)) then Some False
                else placementScan s rest))"

definition footprintTiles :: "real \<Rightarrow> real \<Rightarrow> int \<Rightarrow> int \<Rightarrow> (real \<times> real) list" where
  "footprintTiles fx fy tileW tileH =
     concat (map (\<lambda>dy. map (\<lambda>dx. (fx + of_int dx, fy + of_int dy)) [0 .. tileW - 1])
                 [0 .. tileH - 1])"

definition isPlacementValid :: "GameState \<Rightarrow> real \<Rightarrow> real \<Rightarrow> int \<Rightarrow> int \<Rightarrow> bool option" where
  "isPlacementValid s fx fy tileW tileH = placementScan s (footprintTiles fx fy tileW tileH)"

definition placeBuilding ::
  "string \<Rightarrow> string \<Rightarrow> BuildingType \<Rightarrow> real \<Rightarrow> real \<Rightarrow> int \<Rightarrow> int \<Rightarrow> int \<Rightarrow> GameState
   \<Rightarrow> GameState" where
  "placeBuilding newId owner buildingType fx fy bhp tileW tileH s =
     setEntity newId
       \<lparr>eid = newId, etype = asEntityType buildingType, ownerId = owner, ex = fx, ey = fy,
        hp = bhp, maxHp = bhp, estate = Building,
        path = None, targetId = None, trainingQueue = None, carriedGold = None,
        buildProgress = Some 0, miningProgress = None,
        tileWidth = Some tileW, tileHeight = Some tileH,
        pendingBuild = None, rallyPoint = None\<rparr>
       s"

definition distToFootprint :: "Entity \<Rightarrow> real \<Rightarrow> real \<Rightarrow> int \<Rightarrow> int \<Rightarrow> real" where
  "distToFootprint unit bx by bw bh = rectDistance (ex unit) (ey unit) bx by bw bh"

definition addGold :: "string \<Rightarrow> int \<Rightarrow> GameState \<Rightarrow> GameState" where
  "addGold k amount s =
     (case getPlayer s k of None \<Rightarrow> s | Some p \<Rightarrow> setPlayer k (p\<lparr>gold := gold p + amount\<rparr>) s)"

subsection \<open>Pending builds\<close>

definition pendingStep :: "string \<Rightarrow> UuidSource \<times> GameState \<Rightarrow> (UuidSource \<times> GameState) option" where
  "pendingStep k acc =
     (case acc of (ids, s) \<Rightarrow>
      (case getEntity s k of
         None \<Rightarrow> Some acc
       | Some entity \<Rightarrow>
           (case pendingBuild entity of
              None \<Rightarrow> Some acc
            | Some (buildingType, bx, by) \<Rightarrow>
                if etype entity \<noteq> Worker then Some acc
                else if estate entity \<noteq> Idle \<and> \<not> (estate entity = Moving \<and> \<not> hasPath entity)
                  then Some acc
                else
                  (let st = getBuildingStats buildingType in
                   if distToFootprint entity bx by (statTileW st) (statTileH st) \<le> MAX_BUILD_DISTANCE
                   then
                     (case isPlacementValid s bx by (statTileW st) (statTileH st) of
                        None \<Rightarrow> None
                      | Some True \<Rightarrow>
                          Some (nextUuid ids,
                                modEntity k (\<lambda>w. w\<lparr>pendingBuild := None, estate := Idle, path := None\<rparr>)
                                  (placeBuilding (ids 0) (ownerId entity) buildingType bx by
                                     (statHp st) (statTileW st) (statTileH st) s))
                      | Some False \<Rightarrow>
                          Some (ids,
                                modEntity k (\<lambda>w. w\<lparr>pendingBuild := None, estate := Idle, path := None\<rparr>)
                                  (addGold (ownerId entity) (statCost st) s)))
                   else Some acc))))"

definition processPendingBuilds ::
  "UuidSource \<times> GameState \<Rightarrow> (UuidSource \<times> GameState) option" where
  "processPendingBuilds acc = foldOpt pendingStep (map fst (entities (snd acc))) acc"

subsection \<open>Gathering\<close>

text \<open>\<open>goldMines.find(pred)\<close> followed by an update of the mine found.\<close>

fun updateFirst :: "('a \<Rightarrow> bool) \<Rightarrow> ('a \<Rightarrow> 'a) \<Rightarrow> 'a list \<Rightarrow> 'a list" where
  "updateFirst pred upd [] = []"
| "updateFirst pred upd (v # vs) = (if pred v then upd v # vs else v # updateFirst pred upd vs)"

definition findNearestDepot :: "GameState \<Rightarrow> Entity \<Rightarrow> Entity option" where
  "findNearestDepot s worker =
     map_option fst
       (fold (\<lambda>e best.
                if ownerId e \<noteq> ownerId worker then best
                else if etype e \<noteq> HomeBase \<and> etype e \<noteq> ResourceDepot then best
                else if hp e \<le> 0 then best
                else if underConstruction e then best
                else (let centerX = ex e + of_int (case tileWidth e of None \<Rightarrow> 1 | Some n \<Rightarrow> n) / 2;
                          centerY = ey e + of_int (case tileHeight e of None \<Rightarrow> 1 | Some n \<Rightarrow> n) / 2;
                          d = sqrt ((centerX - ex worker) ^ 2 + (centerY - ey worker) ^ 2)
                      in if closer d best then Some (e, d) else best))
             (map snd (entities s)) None)"

definition mineAvailable :: "GoldMine \<Rightarrow> bool" where
  "mineAvailable mine = (int (length (workerIds mine)) < maxWorkers mine \<and> goldRemaining mine > 0)"

definition entityTile :: "Entity \<Rightarrow> Point" where
  "entityTile e = (mathRound (ex e), mathRound (ey e))"

text \<open>The path of a worker to the first walkable tile next to a mine.\<close>

definition pathToMine :: "Grid \<Rightarrow> Entity \<Rightarrow> GoldMine \<Rightarrow> Point list option" where
  "pathToMine walkable entity mine =
     (case findAdjacentWalkable walkable (mineX mine) (mineY mine) (Some 2) (Some 2) of
        None \<Rightarrow> None
      | Some mineAdjacentTile \<Rightarrow> Some (findPath walkable (entityTile entity) mineAdjacentTile))"

text \<open>First block of the loop body: a worker in state \<open>gathering\<close>.\<close>

definition gatherBlock :: "string \<Rightarrow> GatherTimers \<times> GameState \<Rightarrow> (GatherTimers \<times> GameState) option" where
  "gatherBlock k acc =
     (case acc of (timers, s) \<Rightarrow>
      (case getEntity s k of
         None \<Rightarrow> Some acc
       | Some entity \<Rightarrow>
           if estate entity \<noteq> Gathering then Some acc
           else
             (let timer = (case map_of timers (eid entity) of None \<Rightarrow> WORKER_MINE_TICKS
                           | Some t \<Rightarrow> t)
              in if timer \<le> 1
                 then
                   (let s1 = s\<lparr>goldMines :=
                               updateFirst (\<lambda>m. eid entity \<in> set (workerIds m))
                                 (\<lambda>m. m\<lparr>workerIds := filter (\<lambda>w. w \<noteq> eid entity) (workerIds m),
                                        goldRemaining :=
                                          max 0 (goldRemaining m - WORKER_CARRY_CAPACITY)\<rparr>)
                                 (goldMines s)\<rparr>;
                        loaded = entity\<lparr>miningProgress := None,
                                        carriedGold := Some WORKER_CARRY_CAPACITY\<rparr>
                    in (case findNearestDepot s1 loaded of
                          None \<Rightarrow>
                            Some (AList.delete (eid entity) timers,
                                  setEntity k (loaded\<lparr>estate := Idle\<rparr>) s1)
                        | Some depot \<Rightarrow>
                            (case buildWalkableGrid (setEntity k loaded s1) of
                               None \<Rightarrow> None
                             | Some walkable \<Rightarrow>
                                 (case findAdjacentWalkable walkable (ex depot) (ey depot)
                                         (tileWidth depot) (tileHeight depot) of
                                    None \<Rightarrow>
                                      Some (AList.delete (eid entity) timers,
                                            setEntity k (loaded\<lparr>estate := Idle\<rparr>) s1)
                                  | Some depotAdjacentTile \<Rightarrow>
                                      Some (AList.delete (eid entity) timers,
                                            setEntity k
                                              (loaded\<lparr>path := Some (findPath walkable
                                                                      (entityTile loaded)
                                                                      depotAdjacentTile),
                                                      estate := Returning\<rparr>)
                                              s1)))))
                 else Some (AList.update (eid entity) (timer - 1) timers,
                            setEntity k
                              (entity\<lparr>miningProgress :=
                                        Some (1 - of_int timer / of_int WORKER_MINE_TICKS)\<rparr>) s))))"

text \<open>Second block: a worker in state \<open>returning\<close> whose path is used up.\<close>

definition depositCarried :: "string \<Rightarrow> GameState \<Rightarrow> GameState" where
  "depositCarried k s =
     (case getEntity s k of
        None \<Rightarrow> s
      | Some entity \<Rightarrow>
          (case getPlayer s (ownerId entity) of
             None \<Rightarrow> s
           | Some player \<Rightarrow>
               (case carriedGold entity of
                  None \<Rightarrow> s
                | Some carried \<Rightarrow>
                    if carried > 0
                    then setEntity k (entity\<lparr>carriedGold := Some 0\<rparr>)
                           (setPlayer (ownerId entity) (player\<lparr>gold := gold player + carried\<rparr>) s)
                    else s)))"

definition returnBlock :: "string \<Rightarrow> GameState \<Rightarrow> GameState option" where
  "returnBlock k s =
     (case getEntity s k of
        None \<Rightarrow> Some s
      | Some entity0 \<Rightarrow>
          if \<not> (estate entity0 = Returning \<and> \<not> hasPath entity0) then Some s
          else
            (let s1 = depositCarried k s in
             (case getEntity s1 k of
                None \<Rightarrow> Some s1
              | Some entity \<Rightarrow>
                  if \<not> truthyStr (targetId entity)
                    then Some (setEntity k (entity\<lparr>estate := Idle\<rparr>) s1)
                  else
                    (case find (\<lambda>m. Some (mineId m) = targetId entity) (goldMines s1) of
                       None \<Rightarrow> Some (setEntity k (entity\<lparr>estate := Idle, targetId := None\<rparr>) s1)
                     | Some mine \<Rightarrow>
                         if \<not> goldRemaining mine > 0
                           then Some (setEntity k (entity\<lparr>estate := Idle, targetId := None\<rparr>) s1)
                         else if \<not> int (length (workerIds mine)) < maxWorkers mine
                           then Some (setEntity k (entity\<lparr>estate := Idle\<rparr>) s1)
                         else
                           (case buildWalkableGrid s1 of
                              None \<Rightarrow> None
                            | Some walkable \<Rightarrow>
                                (case pathToMine walkable entity mine of
                                   None \<Rightarrow> Some (setEntity k (entity\<lparr>estate := Idle\<rparr>) s1)
                                 | Some [] \<Rightarrow> Some (setEntity k (entity\<lparr>estate := Idle\<rparr>) s1)
                                 | Some (wp # wps) \<Rightarrow>
                                     Some (setEntity k
                                             (entity\<lparr>path := Some (wp # wps), estate := Moving\<rparr>)
                                             s1)))))))"

text \<open>Third block: a worker with a target that has stopped (\<open>moving\<close> or \<open>idle\<close>, no path).\<close>

definition arriveBlock :: "string \<Rightarrow> GatherTimers \<times> GameState \<Rightarrow> (GatherTimers \<times> GameState) option" where
  "arriveBlock k acc =
     (case acc of (timers, s) \<Rightarrow>
      (case getEntity s k of
         None \<Rightarrow> Some acc
       | Some entity \<Rightarrow>
           if \<not> ((estate entity = Moving \<or> estate entity = Idle) \<and> truthyStr (targetId entity)
                  \<and> \<not> hasPath entity)
             then Some acc
           else
             (case find (\<lambda>m. Some (mineId m) = targetId entity) (goldMines s) of
                None \<Rightarrow> Some (timers, setEntity k (loseTarget entity) s)
              | Some mine \<Rightarrow>
                  if sqrt ((ex entity - (mineX mine + 1)) ^ 2 + (ey entity - (mineY mine + 1)) ^ 2)
                       \<le> 3
                  then
                    (if mineAvailable mine
                     then Some (AList.update (eid entity) WORKER_MINE_TICKS timers,
                                setEntity k (entity\<lparr>estate := Gathering, miningProgress := Some 0\<rparr>)
                                  (s\<lparr>goldMines :=
                                       updateFirst (\<lambda>m. Some (mineId m) = targetId entity)
                                         (\<lambda>m. m\<lparr>workerIds := workerIds m @ [eid entity]\<rparr>)
                                         (goldMines s)\<rparr>))
                     else Some (timers, setEntity k (entity\<lparr>estate := Idle\<rparr>) s))
                  else if mineAvailable mine
                  then
                    (case buildWalkableGrid s of
                       None \<Rightarrow> None
                     | Some walkable \<Rightarrow>
                         (case pathToMine walkable entity mine of
                            None \<Rightarrow> Some (timers, setEntity k (loseTarget entity) s)
                          | Some [] \<Rightarrow> Some (timers, setEntity k (loseTarget entity) s)
                          | Some (wp # wps) \<Rightarrow>
                              Some (timers,
                                    setEntity k (entity\<lparr>path := Some (wp # wps), estate := Moving\<rparr>)
                                      s)))
                  else Some acc)))"

definition gatherStep :: "string \<Rightarrow> GatherTimers \<times> GameState \<Rightarrow> (GatherTimers \<times> GameState) option" where
  "gatherStep k acc =
     (case getEntity (snd acc) k of
        None \<Rightarrow> Some acc
      | Some entity \<Rightarrow>
          if etype entity \<noteq> Worker then Some acc
          else
            (case gatherBlock k acc of
               None \<Rightarrow> None
             | Some (timers, s) \<Rightarrow>
                 (case returnBlock k s of
                    None \<Rightarrow> None
                  | Some s' \<Rightarrow> arriveBlock k (timers, s'))))"

definition processGathering ::
  "GatherTimers \<times> GameState \<Rightarrow> (GatherTimers \<times> GameState) option" where
  "processGathering acc = foldOpt gatherStep (map fst (entities (snd acc))) acc"

text \<open>\<open>processEconomy\<close> as the engine calls it, with \<open>recalculateSupply\<close> as the callback.\<close>

definition processEconomy ::
  "GatherTimers \<Rightarrow> UuidSource \<Rightarrow> GameState \<Rightarrow> (GatherTimers \<times> UuidSource \<times> GameState) option" where
  "processEconomy timers ids s =
     (case processConstruction s of
        (s1, built) \<Rightarrow>
          (case processTraining (ids, if built then recalculateSupply s1 else s1) of
             None \<Rightarrow> None
           | Some trained \<Rightarrow>
               (case processPendingBuilds trained of
                  None \<Rightarrow> None
                | Some (ids', s3) \<Rightarrow>
                    (case processGathering (timers, s3) of
                       None \<Rightarrow> None
                     | Some (timers', s4) \<Rightarrow> Some (timers', ids', s4)))))"

definition resetEconomy :: "GatherTimers \<Rightarrow> GatherTimers" where
  "resetEconomy timers = []"


subsection \<open>Command handlers of economy.ts\<close>

definition canTrainAt :: "EntityType \<Rightarrow> EntityType \<Rightarrow> bool" where
  "canTrainAt t buildingT =
     (\<not> (t = Worker \<and> buildingT \<noteq> HomeBase) \<and>
      \<not> (t = Infantry \<and> buildingT \<noteq> Barracks) \<and>
      \<not> (t = Archer \<and> buildingT \<noteq> Barracks) \<and>
      \<not> (t = Cavalry \<and> buildingT \<noteq> Barracks) \<and>
      \<not> (t = Ballista \<and> buildingT \<noteq> Barracks))"

definition handleTrainUnit :: "GameState \<Rightarrow> string \<Rightarrow> string \<Rightarrow> EntityType \<Rightarrow> GameState" where
  "handleTrainUnit s pid buildingId t =
     (case getEntity s buildingId of
        None \<Rightarrow> s
      | Some building \<Rightarrow>
          if ownerId building \<noteq> pid then s
          else
            (case getPlayer s pid of
               None \<Rightarrow> s
             | Some player \<Rightarrow>
                 if \<not> canTrainAt t (etype building) then s
                 else if trainCost (getUnitTrainStats t) \<le> 0 then s
                 else if gold player < trainCost (getUnitTrainStats t) then s
                 else if supplyUsed player + trainSupplyCost (getUnitTrainStats t) > maxSupply player
                   then s
                 else if underConstruction building then s
                 else
                   setEntity buildingId
                     (building\<lparr>trainingQueue :=
                                  Some ((case trainingQueue building of None \<Rightarrow> [] | Some q \<Rightarrow> q)
                                        @ [\<lparr>unitType = t,
                                            ticksRemaining = trainTicks (getUnitTrainStats t)\<rparr>]),
                               estate := Training\<rparr>)
                     (setPlayer pid
                        (player\<lparr>gold := gold player - trainCost (getUnitTrainStats t),
                                supplyUsed := supplyUsed player
                                              + trainSupplyCost (getUnitTrainStats t)\<rparr>)
                        s)))"

definition houseCount :: "GameState \<Rightarrow> string \<Rightarrow> nat" where
  "houseCount s pid =
     length (filter (\<lambda>e. etype e = House \<and> ownerId e = pid) (map snd (entities s)))"

text \<open>The walk to a build site that is too far away, from the state in which the gold is
  already deducted.\<close>

definition walkToSite ::
  "string \<Rightarrow> string \<Rightarrow> BuildingType \<Rightarrow> real \<Rightarrow> real \<Rightarrow> GameState \<Rightarrow> GameState option" where
  "walkToSite pid workerId buildingType bx by s =
     (let st = getBuildingStats buildingType;
          s1 = modEntity workerId
                 (\<lambda>w. w\<lparr>pendingBuild := Some (buildingType, bx, by), targetId := None,
                         miningProgress := None\<rparr>) s
      in (case buildWalkableGrid s1 of
            None \<Rightarrow> None
          | Some walkable \<Rightarrow>
              (case getEntity s1 workerId of
                 None \<Rightarrow> Some s1
               | Some worker \<Rightarrow>
                   (case (case findAdjacentWalkable walkable bx by
                                 (Some (statTileW st)) (Some (statTileH st)) of
                            None \<Rightarrow> []
                          | Some adjTile \<Rightarrow> findPath walkable (entityTile worker) adjTile) of
                      [] \<Rightarrow>
                        Some (modEntity workerId (\<lambda>w. w\<lparr>pendingBuild := None, estate := Idle\<rparr>)
                                (addGold pid (statCost st) s1))
                    | wp # wps \<Rightarrow>
                        Some (modEntity workerId
                                (\<lambda>w. w\<lparr>path := Some (wp # wps), estate := Moving\<rparr>) s1)))))"

definition handleBuildStructure ::
  "UuidSource \<times> GameState \<Rightarrow> string \<Rightarrow> string \<Rightarrow> BuildingType \<Rightarrow> real \<Rightarrow> real
   \<Rightarrow> (UuidSource \<times> GameState) option" where
  "handleBuildStructure acc pid workerId buildingType bx by =
     (case acc of (ids, s) \<Rightarrow>
      (case getEntity s workerId of
         None \<Rightarrow> Some acc
       | Some worker \<Rightarrow>
           if ownerId worker \<noteq> pid \<or> etype worker \<noteq> Worker then Some acc
           else
             (case getPlayer s pid of
                None \<Rightarrow> Some acc
              | Some player \<Rightarrow>
                  (let st = getBuildingStats buildingType in
                   if gold player < statCost st then Some acc
                   else if buildingType = BHouse \<and> houseCount s pid \<ge> HOUSE_MAX_PER_PLAYER
                     then Some acc
                   else
                     (case isPlacementValid s bx by (statTileW st) (statTileH st) of
                        None \<Rightarrow> None
                      | Some False \<Rightarrow> Some acc
                      | Some True \<Rightarrow>
                          (let paid = setPlayer pid (player\<lparr>gold := gold player - statCost st\<rparr>) s in
                           if distToFootprint worker bx by (statTileW st) (statTileH st)
                                \<le> MAX_BUILD_DISTANCE
                           then Some (nextUuid ids,
                                      modEntity workerId
                                        (\<lambda>w. w\<lparr>estate := Idle, path := None, targetId := None,
                                                pendingBuild := None\<rparr>)
                                        (placeBuilding (ids 0) pid buildingType bx by (statHp st)
                                           (statTileW st) (statTileH st) paid))
                           else (case walkToSite pid workerId buildingType bx by paid of
                                   None \<Rightarrow> None
                                 | Some s' \<Rightarrow> Some (ids, s'))))))))"

definition gatherOne :: "Grid \<Rightarrow> string \<Rightarrow> GoldMine \<Rightarrow> string \<Rightarrow> GameState \<Rightarrow> GameState" where
  "gatherOne walkable pid mine workerId s =
     (case getEntity s workerId of
        None \<Rightarrow> s
      | Some worker \<Rightarrow>
          if ownerId worker \<noteq> pid \<or> etype worker \<noteq> Worker then s
          else if int (length (workerIds mine)) \<ge> maxWorkers mine then s
          else
            (case findAdjacentWalkable walkable (mineX mine) (mineY mine) (Some 2) (Some 2) of
               None \<Rightarrow> setEntity workerId (worker\<lparr>targetId := None\<rparr>) s
             | Some mineAdjacentTile \<Rightarrow>
                 if entityTile worker = mineAdjacentTile
                 then setEntity workerId
                        (worker\<lparr>targetId := Some (mineId mine), path := Some [], estate := Idle\<rparr>) s
                 else (case findPath walkable (entityTile worker) mineAdjacentTile of
                         [] \<Rightarrow> setEntity workerId (worker\<lparr>targetId := None\<rparr>) s
                       | wp # wps \<Rightarrow>
                           setEntity workerId
                             (worker\<lparr>targetId := Some (mineId mine), path := Some (wp # wps),
                                     estate := Moving\<rparr>) s)))"

definition handleGatherResource ::
  "GameState \<Rightarrow> string \<Rightarrow> string list \<Rightarrow> string \<Rightarrow> GameState option" where
  "handleGatherResource s pid workers mid =
     (case find (\<lambda>m. mineId m = mid) (goldMines s) of
        None \<Rightarrow> Some s
      | Some mine \<Rightarrow>
          if goldRemaining mine \<le> 0 then Some s
          else (case buildWalkableGrid s of
                  None \<Rightarrow> None
                | Some walkable \<Rightarrow> Some (fold (gatherOne walkable pid mine) workers s)))"

definition upgradeLevel :: "UpgradeLevels \<Rightarrow> UpgradeableUnit \<Rightarrow> int" where
  "upgradeLevel u t =
     (case t of UInfantry \<Rightarrow> upInfantry u | UArcher \<Rightarrow> upArcher u | UCavalry \<Rightarrow> upCavalry u)"

definition setUpgradeLevel :: "UpgradeableUnit \<Rightarrow> int \<Rightarrow> UpgradeLevels \<Rightarrow> UpgradeLevels" where
  "setUpgradeLevel t v u =
     (case t of UInfantry \<Rightarrow> u\<lparr>upInfantry := v\<rparr> | UArcher \<Rightarrow> u\<lparr>upArcher := v\<rparr>
      | UCavalry \<Rightarrow> u\<lparr>upCavalry := v\<rparr>)"

definition handleUpgradeUnit :: "GameState \<Rightarrow> string \<Rightarrow> string \<Rightarrow> UpgradeableUnit \<Rightarrow> GameState" where
  "handleUpgradeUnit s pid armoryId t =
     (case getEntity s armoryId of
        None \<Rightarrow> s
      | Some armory \<Rightarrow>
          if ownerId armory \<noteq> pid then s
          else if etype armory \<noteq> Armory then s
          else if underConstruction armory then s
          else
            (case getPlayer s pid of
               None \<Rightarrow> s
             | Some player \<Rightarrow>
                 (let levels = (case upgrades player of
                                  None \<Rightarrow> \<lparr>upInfantry = 0, upArcher = 0, upCavalry = 0\<rparr>
                                | Some u \<Rightarrow> u);
                      cost = getUpgradeCost (upgradeLevel levels t)
                  in if gold player < cost
                     then setPlayer pid (player\<lparr>upgrades := Some levels\<rparr>) s
                     else setPlayer pid
                            (player\<lparr>gold := gold player - cost,
                                    upgrades := Some (setUpgradeLevel t (upgradeLevel levels t + 1)
                                                        levels)\<rparr>)
                            s)))"

section \<open>GameEngine.ts\<close>

datatype Command =
  MoveUnits "string list" real real
  | AttackTarget "string list" string
  | BuildStructure string BuildingType real real
  | TrainUnit string EntityType
  | GatherResource "string list" string
  | UpgradeUnit string UpgradeableUnit
  | DepositGold "string list" string
  | SetRallyPoint string real real
  | OtherEvent string

type_synonym QueuedCommand = "string \<times> Command"

definition isMobile :: "EntityType \<Rightarrow> bool" where
  "isMobile t = (t = Worker \<or> t = Infantry \<or> t = Archer \<or> t = Cavalry \<or> t = Ballista)"

definition onMine :: "Point \<Rightarrow> GoldMine \<Rightarrow> bool" where
  "onMine baseTarget mine =
     (of_int (fst baseTarget) \<ge> mineX mine \<and> of_int (fst baseTarget) < mineX mine + 2 \<and>
      of_int (snd baseTarget) \<ge> mineY mine \<and> of_int (snd baseTarget) < mineY mine + 2)"

text \<open>The tile the \<open>i\<close>-th of \<open>unitCount\<close> units is sent to.\<close>

definition spreadTarget :: "GameState \<Rightarrow> Point \<Rightarrow> nat \<Rightarrow> nat \<Rightarrow> Point" where
  "spreadTarget s baseTarget i unitCount =
     (if unitCount > 1
      then (max 0 (min (mapWidth s - 1)
                       (fst baseTarget
                        + mathRound (cos (real i / real unitCount * pi * 2) * 1))),
            max 0 (min (mapHeight s - 1)
                       (snd baseTarget
                        + mathRound (sin (real i / real unitCount * pi * 2) * 1))))
      else baseTarget)"

definition moveNormally :: "Grid \<Rightarrow> Point \<Rightarrow> nat \<Rightarrow> nat \<Rightarrow> string \<Rightarrow> GameState \<Rightarrow> GameState" where
  "moveNormally walkable baseTarget i unitCount unitId s =
     (case getEntity s unitId of
        None \<Rightarrow> s
      | Some entity \<Rightarrow>
          (let target = spreadTarget s baseTarget i unitCount;
               firstTry = findPath walkable (entityTile entity) target;
               found = (if firstTry = [] \<and> (fst target \<noteq> fst baseTarget \<or> snd target \<noteq> snd baseTarget)
                        then findPath walkable (entityTile entity) baseTarget else firstTry)
           in if found \<noteq> []
              then setEntity unitId (entity\<lparr>path := Some found, estate := Moving, targetId := None\<rparr>) s
              else s))"

definition moveOne ::
  "Grid \<Rightarrow> string \<Rightarrow> Point \<Rightarrow> GoldMine option \<Rightarrow> nat \<Rightarrow> nat \<times> string \<Rightarrow> GameState \<Rightarrow> GameState" where
  "moveOne walkable pid baseTarget targetMine unitCount iu s =
     (case iu of (i, unitId) \<Rightarrow>
      (case getEntity s unitId of
         None \<Rightarrow> s
       | Some entity \<Rightarrow>
           if ownerId entity \<noteq> pid then s
           else if \<not> isMobile (etype entity) then s
           else
             (case targetMine of
                None \<Rightarrow> moveNormally walkable baseTarget i unitCount unitId s
              | Some mine \<Rightarrow>
                  if etype entity = Worker \<and> goldRemaining mine > 0 \<and> length (workerIds mine) < 1
                  then
                    (case pathToMine walkable entity mine of
                       Some (wp # wps) \<Rightarrow>
                         setEntity unitId
                           (entity\<lparr>targetId := Some (mineId mine), path := Some (wp # wps),
                                   estate := Moving\<rparr>) s
                     | _ \<Rightarrow>
                         moveNormally walkable baseTarget i unitCount unitId
                           (setEntity unitId (entity\<lparr>targetId := Some (mineId mine)\<rparr>) s))
                  else moveNormally walkable baseTarget i unitCount unitId s)))"

definition handleMoveUnits ::
  "GameState \<Rightarrow> string \<Rightarrow> string list \<Rightarrow> real \<Rightarrow> real \<Rightarrow> GameState option" where
  "handleMoveUnits s pid unitIds targetX targetY =
     (case buildWalkableGrid s of
        None \<Rightarrow> None
      | Some walkable \<Rightarrow>
          Some (fold (moveOne walkable pid (mathRound targetX, mathRound targetY)
                        (find (onMine (mathRound targetX, mathRound targetY)) (goldMines s))
                        (length unitIds))
                     (zip [0 ..< length unitIds] unitIds) s))"

text \<open>\<open>handleAttackTarget\<close>: the accumulator carries \<open>adjIdx\<close>.\<close>

definition attackOne ::
  "Grid \<Rightarrow> string \<Rightarrow> string \<Rightarrow> Entity \<Rightarrow> Point list \<Rightarrow> string \<Rightarrow> nat \<times> GameState
   \<Rightarrow> nat \<times> GameState" where
  "attackOne walkable pid tid target adjTiles unitId acc =
     (case acc of (adjIdx, s) \<Rightarrow>
      (case getEntity s unitId of
         None \<Rightarrow> acc
       | Some entity \<Rightarrow>
           if ownerId entity \<noteq> pid then acc
           else if \<not> isCombatUnit (etype entity) then acc
           else
             (let ordered = entity\<lparr>targetId := Some tid, estate := Attacking, pendingBuild := None\<rparr>;
                  onBuilding = (hasFootprint target \<and> adjTiles \<noteq> []);
                  dest = (if onBuilding then adjTiles ! (adjIdx mod length adjTiles)
                          else (mathRound (ex target), mathRound (ey target)));
                  found = (if entityTile entity \<noteq> dest
                           then findPath walkable (entityTile entity) dest else [])
              in (if onBuilding then adjIdx + 1 else adjIdx,
                  setEntity unitId (if found \<noteq> [] then ordered\<lparr>path := Some found\<rparr> else ordered)
                    s))))"

definition handleAttackTarget ::
  "GameState \<Rightarrow> string \<Rightarrow> string list \<Rightarrow> string \<Rightarrow> GameState option" where
  "handleAttackTarget s pid unitIds tid =
     (case getEntity s tid of
        None \<Rightarrow> Some s
      | Some target \<Rightarrow>
          (case buildWalkableGrid s of
             None \<Rightarrow> None
           | Some walkable \<Rightarrow>
               Some (snd (fold (attackOne walkable pid tid target
                                  (if hasFootprint target
                                   then findAllAdjacentWalkable walkable (ex target) (ey target)
                                          (tileWidth target) (tileHeight target)
                                   else []))
                               unitIds (0, s)))))"

definition depositOne :: "Grid \<Rightarrow> string \<Rightarrow> Entity \<Rightarrow> string \<Rightarrow> GameState \<Rightarrow> GameState" where
  "depositOne walkable pid depot workerId s =
     (case getEntity s workerId of
        None \<Rightarrow> s
      | Some worker \<Rightarrow>
          if ownerId worker \<noteq> pid then s
          else if etype worker \<noteq> Worker then s
          else if \<not> (case carriedGold worker of None \<Rightarrow> False | Some c \<Rightarrow> c > 0) then s
          else
            (case findAdjacentWalkable walkable (ex depot) (ey depot)
                    (tileWidth depot) (tileHeight depot) of
               None \<Rightarrow> s
             | Some adj \<Rightarrow>
                 (case findPath walkable (entityTile worker) adj of
                    [] \<Rightarrow> s
                  | wp # wps \<Rightarrow>
                      setEntity workerId
                        (worker\<lparr>path := Some (wp # wps), estate := Returning, targetId := None,
                                pendingBuild := None\<rparr>) s)))"

definition handleDepositGold ::
  "GameState \<Rightarrow> string \<Rightarrow> string list \<Rightarrow> string \<Rightarrow> GameState option" where
  "handleDepositGold s pid workers depotId =
     (case getEntity s depotId of
        None \<Rightarrow> Some s
      | Some depot \<Rightarrow>
          if ownerId depot \<noteq> pid then Some s
          else if etype depot \<noteq> HomeBase \<and> etype depot \<noteq> ResourceDepot then Some s
          else if hp depot \<le> 0 then Some s
          else (case buildWalkableGrid s of
                  None \<Rightarrow> None
                | Some walkable \<Rightarrow> Some (fold (depositOne walkable pid depot) workers s)))"

definition handleSetRallyPoint :: "GameState \<Rightarrow> string \<Rightarrow> string \<Rightarrow> real \<Rightarrow> real \<Rightarrow> GameState" where
  "handleSetRallyPoint s pid buildingId rx ry =
     (case getEntity s buildingId of
        None \<Rightarrow> s
      | Some building \<Rightarrow>
          if ownerId building \<noteq> pid then s
          else if etype building \<noteq> HomeBase \<and> etype building \<noteq> Barracks then s
          else setEntity buildingId
                 (building\<lparr>rallyPoint := Some (mathRound rx, mathRound ry)\<rparr>) s)"


text \<open>
  Module-level state, shared by every engine of the process: the two \<open>Map\<close>s of combat.ts and
  economy.ts, and the supply of fresh ids.
\<close>

record Process =
  attackCooldowns :: Cooldowns
  gatherTimers :: GatherTimers
  uuidSource :: UuidSource

datatype ServerEvent = GameStateEvent GameState | GameOverEvent string string

datatype CollabCall =
  OnGameEnd string
  | RecordMatch string int "(string \<times> string \<times> string) list"

text \<open>
  One \<open>GameEngine\<close> instance. \<open>intervalId\<close> is \<open>True\<close> while the \<open>setInterval\<close> timer is armed;
  \<open>emitted\<close> lists what was sent to the room, oldest first; \<open>deferred\<close> lists the calls that
  \<open>checkGameOver\<close> schedules through dynamic imports.
\<close>

record GameEngine =
  gameState :: GameState
  commandQueue :: "QueuedCommand list"
  intervalId :: bool
  roomId :: string
  startTime :: int
  emitted :: "ServerEvent list"
  deferred :: "CollabCall list"

definition handleCommand :: "string \<Rightarrow> Command \<Rightarrow> GameEngine \<Rightarrow> GameEngine" where
  "handleCommand pid cmd eng = eng\<lparr>commandQueue := commandQueue eng @ [(pid, cmd)]\<rparr>"

definition stop :: "Process \<times> GameEngine \<Rightarrow> Process \<times> GameEngine" where
  "stop pe =
     (case pe of (proc, eng) \<Rightarrow>
        (proc\<lparr>attackCooldowns := resetCombat (attackCooldowns proc),
              gatherTimers := resetEconomy (gatherTimers proc)\<rparr>,
         eng\<lparr>intervalId := False\<rparr>))"

text \<open>The \<open>switch\<close> of \<open>processCommands\<close>, for one queued command.\<close>

definition dispatch :: "QueuedCommand \<Rightarrow> UuidSource \<times> GameState \<Rightarrow> (UuidSource \<times> GameState) option" where
  "dispatch qc acc =
     (case acc of (ids, s) \<Rightarrow>
      (case qc of (pid, cmd) \<Rightarrow>
       (case cmd of
          MoveUnits unitIds targetX targetY \<Rightarrow>
            map_option (Pair ids) (handleMoveUnits s pid unitIds targetX targetY)
        | AttackTarget unitIds tid \<Rightarrow>
            map_option (Pair ids) (handleAttackTarget s pid unitIds tid)
        | BuildStructure workerId buildingType bx by \<Rightarrow>
            map_option (\<lambda>(ids', s'). (ids', recalculateSupply s'))
              (handleBuildStructure acc pid workerId buildingType bx by)
        | TrainUnit buildingId t \<Rightarrow> Some (ids, handleTrainUnit s pid buildingId t)
        | GatherResource workers mid \<Rightarrow>
            map_option (Pair ids) (handleGatherResource s pid workers mid)
        | UpgradeUnit armoryId t \<Rightarrow> Some (ids, handleUpgradeUnit s pid armoryId t)
        | DepositGold workers depotId \<Rightarrow>
            map_option (Pair ids) (handleDepositGold s pid workers depotId)
        | SetRallyPoint buildingId rx ry \<Rightarrow> Some (ids, handleSetRallyPoint s pid buildingId rx ry)
        | OtherEvent name \<Rightarrow> Some acc)))"

definition processCommands :: "QueuedCommand list \<Rightarrow> UuidSource \<times> GameState \<Rightarrow> (UuidSource \<times> GameState) option" where
  "processCommands commands acc = foldOpt dispatch commands acc"

text \<open>\<open>playersWithBase\<close>: a \<open>Set\<close>, enumerated in insertion order.\<close>

definition setAdd :: "'a \<Rightarrow> 'a list \<Rightarrow> 'a list" where
  "setAdd v vs = (if v \<in> set vs then vs else vs @ [v])"

definition playersWithBase :: "GameState \<Rightarrow> string list" where
  "playersWithBase s =
     fold (\<lambda>entity acc. if etype entity = HomeBase \<and> hp entity > 0
                         then setAdd (ownerId entity) acc else acc)
          (map snd (entities s)) []"

definition eliminated :: "GameState \<Rightarrow> string list" where
  "eliminated s = filter (\<lambda>pid. pid \<notin> set (playersWithBase s)) (map fst (players s))"

definition winReason :: "GameState \<Rightarrow> string \<Rightarrow> string" where
  "winReason s winnerId =
     (case getPlayer s winnerId of None \<Rightarrow> ''Unknown'' | Some p \<Rightarrow> playerName p)
     @ '' wins! Enemy base destroyed.''"

definition matchPlayers :: "GameState \<Rightarrow> (string \<times> string \<times> string) list" where
  "matchPlayers s = map (\<lambda>(pid, p). (pid, color p, faction p)) (players s)"

definition checkGameOver :: "int \<Rightarrow> Process \<times> GameEngine \<Rightarrow> Process \<times> GameEngine" where
  "checkGameOver now pe =
     (case pe of (proc, eng) \<Rightarrow>
        if eliminated (gameState eng) \<noteq> [] \<and> length (playersWithBase (gameState eng)) = 1
        then
          (let winnerId = hd (playersWithBase (gameState eng));
               durationSecs = (now - startTime eng) div 1000
           in stop (proc,
                    eng\<lparr>emitted := emitted eng
                                    @ [GameOverEvent winnerId (winReason (gameState eng) winnerId)],
                        deferred := deferred eng
                                    @ [OnGameEnd (roomId eng),
                                       RecordMatch winnerId durationSecs
                                         (matchPlayers (gameState eng))]\<rparr>))
        else pe)"

text \<open>
  One tick. \<open>botCommands\<close> is what the bots' \<open>processTick\<close> returns on this tick: it reads the
  state and changes nothing but the bot's own counter. \<open>None\<close> is a tick that raised.
\<close>

definition tick ::
  "int \<Rightarrow> QueuedCommand list \<Rightarrow> Process \<times> GameEngine \<Rightarrow> (Process \<times> GameEngine) option" where
  "tick now botCommands pe =
     (case pe of (proc, eng) \<Rightarrow>
      (case processCommands (commandQueue eng @ botCommands)
              (uuidSource proc, (gameState eng)\<lparr>tickCounter := tickCounter (gameState eng) + 1\<rparr>) of
         None \<Rightarrow> None
       | Some (ids1, s1) \<Rightarrow>
           (case processEconomy (gatherTimers proc) ids1 s1 of
              None \<Rightarrow> None
            | Some (timers, ids2, s2) \<Rightarrow>
                (case processCombat (attackCooldowns proc) (processMovement s2) of
                   None \<Rightarrow> None
                 | Some (cds, s3) \<Rightarrow>
                     (case checkGameOver now
                             (\<lparr>attackCooldowns = cds, gatherTimers = timers, uuidSource = ids2\<rparr>,
                              eng\<lparr>gameState := s3, commandQueue := []\<rparr>) of
                        (proc', eng') \<Rightarrow>
                          Some (proc', eng'\<lparr>emitted := emitted eng' @ [GameStateEvent s3]\<rparr>))))))"


section \<open>Properties stated by the specification\<close>

text \<open>The predicates in which the properties below are stated.\<close>

definition ownsLivingBase :: "GameState \<Rightarrow> string \<Rightarrow> bool" where
  "ownsLivingBase s pid =
     list_ex (\<lambda>e. etype e = HomeBase \<and> hp e > 0 \<and> ownerId e = pid) (map snd (entities s))"

definition isPlayer :: "GameState \<Rightarrow> string \<Rightarrow> bool" where
  "isPlayer s pid = (pid \<in> set (map fst (players s)))"

definition ownersArePlayers :: "GameState \<Rightarrow> bool" where
  "ownersArePlayers s = list_all (\<lambda>e. isPlayer s (ownerId e)) (map snd (entities s))"

definition isGameOver :: "ServerEvent \<Rightarrow> bool" where
  "isGameOver ev = (case ev of GameOverEvent w r \<Rightarrow> True | GameStateEvent s \<Rightarrow> False)"

section \<open>States used as examples\<close>

definition exBase :: "string \<Rightarrow> string \<Rightarrow> real \<Rightarrow> real \<Rightarrow> int \<Rightarrow> Entity" where
  "exBase i owner bx by h =
     \<lparr>eid = i, etype = HomeBase, ownerId = owner, ex = bx, ey = by, hp = h, maxHp = 2000,
      estate = Idle, path = None, targetId = None, trainingQueue = Some [], carriedGold = None,
      buildProgress = None, miningProgress = None, tileWidth = Some 3, tileHeight = Some 3,
      pendingBuild = None, rallyPoint = None\<rparr>"

definition exPlayer :: "string \<Rightarrow> int \<Rightarrow> Player" where
  "exPlayer i g =
     \<lparr>playerId = i, playerName = i, color = ''#3498db'', faction = ''humans'', gold = g,
      supplyUsed = 0, maxSupply = 10,
      upgrades = Some \<lparr>upInfantry = 0, upArcher = 0, upCavalry = 0\<rparr>\<rparr>"

definition exState :: "(string \<times> Entity) list \<Rightarrow> GameState" where
  "exState es =
     \<lparr>tickCounter = 0, mapWidth = 8, mapHeight = 3,
      tiles = replicate 3 (replicate 8 Grass),
      players = [(''p1'', exPlayer ''p1'' 300), (''p2'', exPlayer ''p2'' 300)],
      entities = es, goldMines = []\<rparr>"

definition exEngine :: "GameState \<Rightarrow> GameEngine" where
  "exEngine s =
     \<lparr>gameState = s, commandQueue = [], intervalId = True, roomId = ''room'', startTime = 0,
      emitted = [], deferred = []\<rparr>"

definition exProcess :: Process where
  "exProcess = \<lparr>attackCooldowns = [], gatherTimers = [], uuidSource = (\<lambda>n. replicate (Suc n) CHR ''u'')\<rparr>"





definition exUnit :: "string \<Rightarrow> EntityType \<Rightarrow> string \<Rightarrow> int \<Rightarrow> int \<Rightarrow> int \<Rightarrow> Entity" where
  "exUnit i t owner ux uy h = newUnit i t owner (ux, uy) h"


definition pickedUp :: "string \<Rightarrow> GoldMine \<Rightarrow> GoldMine" where
  "pickedUp wid m =
     m\<lparr>workerIds := filter (\<lambda>w. w \<noteq> wid) (workerIds m),
       goldRemaining := max 0 (goldRemaining m - WORKER_CARRY_CAPACITY)\<rparr>"

definition timerOf :: "GatherTimers \<Rightarrow> string \<Rightarrow> int" where
  "timerOf timers wid = (case map_of timers wid of None \<Rightarrow> WORKER_MINE_TICKS | Some t \<Rightarrow> t)"

definition exMine :: "string \<Rightarrow> real \<Rightarrow> real \<Rightarrow> int \<Rightarrow> string list \<Rightarrow> GoldMine" where
  "exMine i mx my g ws =
     \<lparr>mineId = i, mineX = mx, mineY = my, goldRemaining = g, maxWorkers = 1, workerIds = ws\<rparr>"

definition exGather :: GameState where
  "exGather =
     (exState [(''b1'', exBase ''b1'' ''p1'' 2 0 2000),
               (''w1'', (exUnit ''w1'' Worker ''p1'' 1 0 60)\<lparr>estate := Gathering\<rparr>)])
       \<lparr>goldMines := [exMine ''m1'' 6 0 5 [''w1'']]\<rparr>"

definition exGathered :: GameState where
  "exGathered =
     (exState [(''b1'', exBase ''b1'' ''p1'' 2 0 2000),
               (''w1'', (exUnit ''w1'' Worker ''p1'' 1 0 60)
                          \<lparr>estate := Returning, path := Some [], carriedGold := Some 10\<rparr>)])
       \<lparr>goldMines := [exMine ''m1'' 6 0 0 []]\<rparr>"

definition exSharedProcess :: Process where
  "exSharedProcess =
     exProcess\<lparr>attackCooldowns := [(''towerB'', 20)], gatherTimers := [(''workerB'', 7)]\<rparr>"

definition canMove :: "Entity \<Rightarrow> bool" where
  "canMove e = (hasPath e \<and> (estate e = Moving \<or> estate e = Returning \<or> estate e = Attacking)
                \<and> getSpeed e > 0)"

definition distTo :: "real \<Rightarrow> real \<Rightarrow> Point \<Rightarrow> real" where
  "distTo px py wp =
     sqrt ((of_int (fst wp) - px) * (of_int (fst wp) - px)
           + (of_int (snd wp) - py) * (of_int (snd wp) - py))"

definition isBuildingType :: "EntityType \<Rightarrow> bool" where
  "isBuildingType t = (t = HomeBase \<or> t = House \<or> t = Barracks \<or> t = ResourceDepot \<or>
                       t = Tower \<or> t = Armory)"

definition exWalker :: "EntityState \<Rightarrow> Point list \<Rightarrow> Entity" where
  "exWalker st p = (exUnit ''w1'' Worker ''p1'' 0 0 60)\<lparr>estate := st, path := Some p\<rparr>"




definition buildRejected ::
  "GameState \<Rightarrow> string \<Rightarrow> string \<Rightarrow> BuildingType \<Rightarrow> real \<Rightarrow> real \<Rightarrow> bool" where
  "buildRejected s pid workerId buildingType bx by =
     (case getEntity s workerId of
        None \<Rightarrow> True
      | Some worker \<Rightarrow>
          ownerId worker \<noteq> pid \<or> etype worker \<noteq> Worker \<or>
          (case getPlayer s pid of
             None \<Rightarrow> True
           | Some player \<Rightarrow>
               gold player < statCost (getBuildingStats buildingType) \<or>
               (buildingType = BHouse \<and> houseCount s pid \<ge> HOUSE_MAX_PER_PLAYER) \<or>
               isPlacementValid s bx by (statTileW (getBuildingStats buildingType))
                 (statTileH (getBuildingStats buildingType)) = Some False))"












definition exQueued :: GameState where
  "exQueued =
     handleTrainUnit
       (recalculateSupply (exState [(''b1'', exBase ''b1'' ''p1'' 2 0 2000),
                                    (''w1'', exUnit ''w1'' Worker ''p1'' 0 0 60)]))
       ''p1'' ''b1'' Worker"

text \<open>Candidates for the square root of a square of hundredths, for evaluating the
  distances of the examples.\<close>

definition rootCandidates :: "real \<Rightarrow> real list" where
  "rootCandidates x =
     (let n = int (length (takeWhile (\<lambda>k. of_int k * of_int k \<le> x) [1 .. \<lceil>x\<rceil>]))
      in map (\<lambda>j. of_int n + of_int j / 100) [0 .. 100])"

text \<open>A wounded worker next to an enemy infantry, and the order to build a house four
  tiles away.\<close>

definition exEscrow :: GameState where
  "exEscrow = exState [(''w1'', exUnit ''w1'' Worker ''p1'' 0 0 5),
                       (''i2'', exUnit ''i2'' Infantry ''p2'' 1 0 120)]"

definition exEscrowEngine :: GameEngine where
  "exEscrowEngine =
     (exEngine exEscrow)\<lparr>commandQueue := [(''p1'', BuildStructure ''w1'' BHouse 4 0)]\<rparr>"

text \<open>Where the gold is: every player's gold, and every entity with its pending order.\<close>

definition ledger ::
  "GameState \<Rightarrow> (string \<times> int) list \<times> (string \<times> EntityType \<times> (BuildingType \<times> real \<times> real) option) list" where
  "ledger s =
     (map (\<lambda>(k, p). (k, gold p)) (players s),
      map (\<lambda>(k, e). (k, etype e, pendingBuild e)) (entities s))"

section \<open>Termination of the search loop\<close>

lemma bestIndex_fold_less:
  "b < n \<Longrightarrow> set js \<subseteq> {..<n} \<Longrightarrow>
   fold (\<lambda>i bestIdx. if P i bestIdx then i else bestIdx) js b < n"
  by (induction js arbitrary: b) auto

lemma bestIndex_less: "opn \<noteq> [] \<Longrightarrow> bestIndex opn < length opn"
  unfolding bestIndex_def by (rule bestIndex_fold_less) auto

lemma length_removeAt: "opn \<noteq> [] \<Longrightarrow> length (removeAt opn i) < length opn"
  by (simp add: removeAt_def)

lemma set_removeAt_subset: "set (removeAt opn i) \<subseteq> set opn"
proof (cases "opn = []")
  case True
  then show ?thesis by (simp add: removeAt_def)
next
  case False
  have "set (removeAt opn i) \<subseteq> set (opn[i := last opn])"
    unfolding removeAt_def by (meson in_set_butlastD subsetI)
  also have "\<dots> \<subseteq> insert (last opn) (set opn)"
    by (rule set_update_subset_insert)
  also have "\<dots> = set opn"
    using False by auto
  finally show ?thesis .
qed

lemma key_valid:
  assumes "inBounds w a b"
  shows "key w a b \<in> validKeys w"
proof -
  let ?W = "gridWidth w" and ?H = "gridHeight w"
  from assms have a: "0 \<le> a" "a < ?W" "0 \<le> b" "b < ?H"
    by (auto simp: inBounds_def)
  have "b * ?W + a < (b + 1) * ?W"
    using a by (simp add: algebra_simps)
  also have "\<dots> \<le> ?H * ?W"
    using a by (intro mult_right_mono) auto
  finally have "b * ?W + a < ?W * ?H"
    by (simp add: mult.commute)
  moreover have "0 \<le> b * ?W + a"
    using a by simp
  ultimately show ?thesis
    by (simp add: key_def validKeys_def)
qed

lemma relax_keys:
  "nodeKey w ` set (fst (relax w e cl cur d acc)) \<subseteq> nodeKey w ` set (fst acc) \<union> validKeys w"
  by (cases d; cases acc)
     (auto simp: relax_def Let_def nodeKey_def key_valid split: option.splits)

lemma fold_relax_keys:
  "nodeKey w ` set (fst (fold (relax w e cl cur) ds acc))
     \<subseteq> nodeKey w ` set (fst acc) \<union> validKeys w"
proof (induction ds arbitrary: acc)
  case Nil
  then show ?case by simp
next
  case (Cons d ds)
  show ?case
    using Cons.IH[of "relax w e cl cur d acc"] relax_keys[of w e cl cur d acc] by auto
qed

lemma finite_validKeys: "finite (validKeys w)"
  by (simp add: validKeys_def)

termination astarLoop
proof (relation "inv_image (less_than <*lex*> less_than)
    (\<lambda>(w, s, e, opn, cl, gs). (card ((nodeKey w ` set opn \<union> validKeys w) - cl), length opn))",
    goal_cases)
  case 1
  show ?case by (intro wf_inv_image wf_lex_prod wf_less_than)
next
  case (2 w s e opn cl gs)
  have "(nodeKey w ` set (removeAt opn (bestIndex opn)) \<union> validKeys w) - cl
        \<subseteq> (nodeKey w ` set opn \<union> validKeys w) - cl"
    using set_removeAt_subset[of opn "bestIndex opn"] by auto
  then have "card ((nodeKey w ` set (removeAt opn (bestIndex opn)) \<union> validKeys w) - cl)
        \<le> card ((nodeKey w ` set opn \<union> validKeys w) - cl)"
    by (intro card_mono) (auto simp: finite_validKeys)
  moreover have "length (removeAt opn (bestIndex opn)) < length opn"
    using 2 by (simp add: length_removeAt)
  ultimately show ?case by auto
next
  case (3 w s e opn cl gs)
  let ?cur = "opn ! bestIndex opn"
  let ?ck = "nodeKey w ?cur"
  let ?A = "(nodeKey w ` set opn \<union> validKeys w) - cl"
  let ?o2 = "fst (fold (relax w e (insert ?ck cl) ?cur) dirs (removeAt opn (bestIndex opn), gs))"
  have cur: "?cur \<in> set opn"
    using 3 by (simp add: bestIndex_less)
  have "nodeKey w ` set ?o2 \<subseteq> nodeKey w ` set (removeAt opn (bestIndex opn)) \<union> validKeys w"
    using fold_relax_keys[of w e "insert ?ck cl" ?cur dirs "(removeAt opn (bestIndex opn), gs)"]
    by simp
  then have "nodeKey w ` set ?o2 \<subseteq> nodeKey w ` set opn \<union> validKeys w"
    using set_removeAt_subset[of opn "bestIndex opn"] by blast
  then have sub: "(nodeKey w ` set ?o2 \<union> validKeys w) - insert ?ck cl \<subseteq> ?A - {?ck}"
    by blast
  have "?ck \<in> ?A"
    using cur 3 by auto
  then have "card (?A - {?ck}) < card ?A"
    by (intro card_Diff1_less) (auto simp: finite_validKeys)
  moreover have "card ((nodeKey w ` set ?o2 \<union> validKeys w) - insert ?ck cl) \<le> card (?A - {?ck})"
    using sub by (intro card_mono) (auto simp: finite_validKeys)
  ultimately show ?case by auto
qed

section \<open>The victory check\<close>

lemma fold_setAdd_set:
  "set (fold (\<lambda>entity acc. if P entity then setAdd (f entity) acc else acc) es acc0)
     = set acc0 \<union> f ` {e \<in> set es. P e}"
  by (induction es arbitrary: acc0) (auto simp: setAdd_def)

lemma fold_setAdd_distinct:
  "distinct acc0 \<Longrightarrow>
   distinct (fold (\<lambda>entity acc. if P entity then setAdd (f entity) acc else acc) es acc0)"
  by (induction es arbitrary: acc0) (auto simp: setAdd_def)

lemma set_playersWithBase: "set (playersWithBase s) = {p. ownsLivingBase s p}"
  unfolding playersWithBase_def ownsLivingBase_def
  by (subst fold_setAdd_set) (auto simp: list_ex_iff)

lemma distinct_playersWithBase: "distinct (playersWithBase s)"
  unfolding playersWithBase_def by (rule fold_setAdd_distinct) simp

lemma set_eliminated:
  "set (eliminated s) = {p. isPlayer s p \<and> \<not> ownsLivingBase s p}"
  by (auto simp: eliminated_def set_playersWithBase isPlayer_def)

lemma playersWithBase_single:
  assumes "ownsLivingBase s w" and "\<forall>p. ownsLivingBase s p \<longrightarrow> p = w"
  shows "playersWithBase s = [w]"
proof -
  have "{p. ownsLivingBase s p} = {w}"
    using assms by blast
  then have st: "set (playersWithBase s) = {w}"
    by (simp add: set_playersWithBase)
  have d: "distinct (playersWithBase s)"
    by (rule distinct_playersWithBase)
  show ?thesis
  proof (cases "playersWithBase s")
    case Nil
    with st show ?thesis by simp
  next
    case (Cons a as)
    with st have a: "a = w" by auto
    have "as = []"
    proof (cases as)
      case Nil
      then show ?thesis .
    next
      case (Cons b bs)
      with st \<open>playersWithBase s = a # as\<close> have "b = w" by auto
      with d a Cons \<open>playersWithBase s = a # as\<close> show ?thesis by simp
    qed
    with a Cons show ?thesis by simp
  qed
qed

lemma playersWithBase_length1:
  assumes "length (playersWithBase s) = 1"
  shows "\<exists>w. playersWithBase s = [w] \<and> ownsLivingBase s w \<and> (\<forall>p. ownsLivingBase s p \<longrightarrow> p = w)"
proof -
  from assms obtain w where w: "playersWithBase s = [w]"
    by (cases "playersWithBase s") auto
  then have "set (playersWithBase s) = {w}" by simp
  then have "{p. ownsLivingBase s p} = {w}" by (simp add: set_playersWithBase)
  then show ?thesis using w by blast
qed


lemma owner_isPlayer:
  "ownersArePlayers s \<Longrightarrow> ownsLivingBase s p \<Longrightarrow> isPlayer s p"
  unfolding ownersArePlayers_def ownsLivingBase_def list_all_iff list_ex_iff by blast

text \<open>
  C8. At the victory check a player counts as eliminated exactly when it owns no living home
  base. When some player is eliminated and exactly one player still owns a living home base,
  that player is declared the winner: the \<open>gameOver\<close> event with its id is emitted, the
  scheduler is halted (\<open>intervalId\<close> cleared) and the room and match-record collaborators are
  called. Stated for states in which every entity is owned by a player of the match, as in
  every state the engine builds.
\<close>

theorem checkGameOver_winner:
  assumes "ownersArePlayers (gameState eng)"
  shows "set (eliminated (gameState eng))
           = {p. isPlayer (gameState eng) p \<and> \<not> ownsLivingBase (gameState eng) p} \<and>
         ((\<exists>p. isPlayer (gameState eng) p \<and> \<not> ownsLivingBase (gameState eng) p) \<and>
          isPlayer (gameState eng) w \<and> ownsLivingBase (gameState eng) w \<and>
          (\<forall>p. isPlayer (gameState eng) p \<and> ownsLivingBase (gameState eng) p \<longrightarrow> p = w)
          \<longrightarrow> snd (checkGameOver now (proc, eng))
                = eng\<lparr>intervalId := False,
                      emitted := emitted eng @ [GameOverEvent w (winReason (gameState eng) w)],
                      deferred := deferred eng
                                  @ [OnGameEnd (roomId eng),
                                     RecordMatch w ((now - startTime eng) div 1000)
                                       (matchPlayers (gameState eng))]\<rparr>)"
proof (intro conjI impI)
  show "set (eliminated (gameState eng))
          = {p. isPlayer (gameState eng) p \<and> \<not> ownsLivingBase (gameState eng) p}"
    by (rule set_eliminated)
next
  let ?s = "gameState eng"
  assume h: "(\<exists>p. isPlayer ?s p \<and> \<not> ownsLivingBase ?s p) \<and> isPlayer ?s w \<and> ownsLivingBase ?s w \<and>
             (\<forall>p. isPlayer ?s p \<and> ownsLivingBase ?s p \<longrightarrow> p = w)"
  then have only: "\<forall>p. ownsLivingBase ?s p \<longrightarrow> p = w"
    using owner_isPlayer[OF assms] by blast
  from h have pw: "playersWithBase ?s = [w]"
    using playersWithBase_single[of ?s w] only by blast
  from h have "set (eliminated ?s) \<noteq> {}"
    unfolding set_eliminated by blast
  then have el: "eliminated ?s \<noteq> []" by auto
  show "snd (checkGameOver now (proc, eng))
          = eng\<lparr>intervalId := False,
                emitted := emitted eng @ [GameOverEvent w (winReason ?s w)],
                deferred := deferred eng
                            @ [OnGameEnd (roomId eng),
                               RecordMatch w ((now - startTime eng) div 1000) (matchPlayers ?s)]\<rparr>"
    using pw el by (simp add: checkGameOver_def stop_def Let_def)
qed

theorem checkGameOver_winner_witness:
  "ownersArePlayers (exState [(''b1'', exBase ''b1'' ''p1'' 2 0 2000)]) \<and>
   set (eliminated (exState [(''b1'', exBase ''b1'' ''p1'' 2 0 2000)])) = {''p2''} \<and>
   snd (checkGameOver 61000 (exProcess, exEngine (exState [(''b1'', exBase ''b1'' ''p1'' 2 0 2000)])))
     = (exEngine (exState [(''b1'', exBase ''b1'' ''p1'' 2 0 2000)]))
         \<lparr>intervalId := False,
          emitted := [GameOverEvent ''p1'' ''p1 wins! Enemy base destroyed.''],
          deferred := [OnGameEnd ''room'',
                       RecordMatch ''p1'' 61 [(''p1'', ''#3498db'', ''humans''),
                                             (''p2'', ''#3498db'', ''humans'')]]\<rparr>"
proof -
  let ?s = "exState [(''b1'', exBase ''b1'' ''p1'' 2 0 2000)]"
  have o: "ownersArePlayers (gameState (exEngine ?s))"
    by (simp add: ownersArePlayers_def isPlayer_def exState_def exEngine_def exBase_def)
  have pre: "(\<exists>p. isPlayer ?s p \<and> \<not> ownsLivingBase ?s p) \<and> isPlayer ?s ''p1'' \<and>
             ownsLivingBase ?s ''p1'' \<and> (\<forall>p. isPlayer ?s p \<and> ownsLivingBase ?s p \<longrightarrow> p = ''p1'')"
    by (auto simp: isPlayer_def ownsLivingBase_def exState_def exBase_def)
  have el: "{p. isPlayer ?s p \<and> \<not> ownsLivingBase ?s p} = {''p2''}"
    by (auto simp: isPlayer_def ownsLivingBase_def exState_def exBase_def)
  from checkGameOver_winner[OF o, of "''p1''" 61000 exProcess] pre el o
  show ?thesis
    by (simp add: exEngine_def winReason_def getPlayer_def matchPlayers_def exState_def exPlayer_def)
qed

section \<open>Focus fire\<close>

lemma getEntity_setEntity:
  "getEntity (setEntity k e s) k' = (if k' = k then Some e else getEntity s k')"
  by (simp add: getEntity_def setEntity_def update_conv')





















section \<open>The gather cycle\<close>

text \<open>Square roots, \<open>cos\<close>, \<open>sin\<close> and \<open>pi\<close> stay symbolic when a term is evaluated with the
  code equations.\<close>

declare sqrt_def [code del] cos_def [code del] sin_def [code del] pi_def [code del]

lemma getPlayer_setEntity [simp]: "getPlayer (setEntity k e s) p = getPlayer s p"
  by (simp add: getPlayer_def setEntity_def)

lemma getPlayer_setPlayer:
  "getPlayer (setPlayer k p s) k' = (if k' = k then Some p else getPlayer s k')"
  by (simp add: getPlayer_def setPlayer_def update_conv')

lemma getEntity_setPlayer [simp]: "getEntity (setPlayer k p s) k' = getEntity s k'"
  by (simp add: getEntity_def setPlayer_def)

lemma goldMines_setEntity [simp]: "goldMines (setEntity k e s) = goldMines s"
  by (simp add: setEntity_def)

text \<open>
  Gathering and depositing: what the first two blocks of the worker loop do to the carried
  gold, the mine and the owner's gold.
\<close>

lemma gatherBlock_pickup:
  assumes "getEntity s k = Some worker" and "estate worker = Gathering"
    and "timerOf timers (eid worker) \<le> 1"
    and "gatherBlock k (timers, s) = Some (timers', s')"
  shows "(\<exists>w'. getEntity s' k = Some w' \<and> carriedGold w' = Some WORKER_CARRY_CAPACITY) \<and>
         goldMines s' = updateFirst (\<lambda>m. eid worker \<in> set (workerIds m)) (pickedUp (eid worker))
                          (goldMines s)"
  using assms
  unfolding gatherBlock_def timerOf_def pickedUp_def
  by (auto simp: Let_def getEntity_setEntity split: option.splits if_splits)

lemma updateFirst_find:
  assumes "find P xs = Some m"
  shows "\<exists>i < length xs. xs ! i = m \<and> updateFirst P f xs = xs[i := f m]"
  using assms
proof (induction xs)
  case Nil
  then show ?case by simp
next
  case (Cons a xs)
  show ?case
  proof (cases "P a")
    case True
    with Cons.prems have "a = m" by simp
    with True show ?thesis by (intro exI[of _ 0]) simp
  next
    case False
    with Cons.prems have "find P xs = Some m" by simp
    from Cons.IH[OF this] obtain i where "i < length xs" "xs ! i = m"
      "updateFirst P f xs = xs[i := f m]" by blast
    with False show ?thesis by (intro exI[of _ "Suc i"]) simp
  qed
qed

lemma returnBlock_players:
  "getEntity s k = Some w \<Longrightarrow> estate w = Returning \<Longrightarrow> \<not> hasPath w \<Longrightarrow>
   returnBlock k s = Some s' \<Longrightarrow> players s' = players (depositCarried k s)"
  unfolding returnBlock_def
  by (auto simp: Let_def setEntity_def split: option.splits if_splits list.splits)

lemma depositCarried_credit:
  assumes "getEntity s k = Some w" and "carriedGold w = Some c" and "c > 0"
    and "getPlayer s (ownerId w) = Some p"
  shows "getPlayer (depositCarried k s) (ownerId w) = Some (p\<lparr>gold := gold p + c\<rparr>)"
  using assms by (simp add: depositCarried_def getPlayer_setPlayer)

text \<open>
  C9. When the mining timer of a gathering worker completes (it is at most 1), the worker is
  loaded with the full \<open>WORKER_CARRY_CAPACITY = 10\<close> whatever the mine holds, and the mine that
  lists the worker loses the carry amount clamped at zero. So a mine holding a positive amount
  below 10 ends at 0 while the worker carries more than the mine held; on arrival
  (\<open>returning\<close>, path used up) the owner's gold grows by exactly the carried amount.
\<close>

theorem gather_full_carry_from_any_mine:
  assumes "getEntity s k = Some worker" and "estate worker = Gathering"
    and "timerOf timers (eid worker) \<le> 1"
    and "find (\<lambda>m. eid worker \<in> set (workerIds m)) (goldMines s) = Some mine"
    and "gatherBlock k (timers, s) = Some (timers', s')"
  shows "\<exists>w' i. getEntity s' k = Some w' \<and> carriedGold w' = Some WORKER_CARRY_CAPACITY \<and>
           i < length (goldMines s) \<and> goldMines s ! i = mine \<and>
           goldMines s' = (goldMines s)[i := pickedUp (eid worker) mine] \<and>
           goldRemaining (goldMines s' ! i) = max 0 (goldRemaining mine - WORKER_CARRY_CAPACITY) \<and>
           (0 < goldRemaining mine \<and> goldRemaining mine < WORKER_CARRY_CAPACITY \<longrightarrow>
              goldRemaining (goldMines s' ! i) = 0 \<and>
              (\<forall>c. carriedGold w' = Some c \<longrightarrow> goldRemaining mine < c)) \<and>
           (\<forall>t t' p c. getEntity t k = Some w' \<and> estate w' = Returning \<and> \<not> hasPath w' \<and>
                        carriedGold w' = Some c \<and> getPlayer t (ownerId w') = Some p \<and>
                        returnBlock k t = Some t'
                        \<longrightarrow> map_option gold (getPlayer t' (ownerId w')) = Some (gold p + c))"
proof -
  from gatherBlock_pickup[OF assms(1,2,3,5)]
  obtain w' where w': "getEntity s' k = Some w'" "carriedGold w' = Some WORKER_CARRY_CAPACITY"
    and gm: "goldMines s' = updateFirst (\<lambda>m. eid worker \<in> set (workerIds m))
                              (pickedUp (eid worker)) (goldMines s)"
    by blast
  from updateFirst_find[OF assms(4), of "pickedUp (eid worker)"]
  obtain i where i: "i < length (goldMines s)" "goldMines s ! i = mine"
    and up: "updateFirst (\<lambda>m. eid worker \<in> set (workerIds m)) (pickedUp (eid worker)) (goldMines s)
             = (goldMines s)[i := pickedUp (eid worker) mine]"
    by blast
  have at: "goldMines s' ! i = pickedUp (eid worker) mine"
    using gm up i by simp
  have credit: "map_option gold (getPlayer t' (ownerId w')) = Some (gold p + c)"
    if "getEntity t k = Some w'" "carriedGold w' = Some c" "getPlayer t (ownerId w') = Some p"
       "returnBlock k t = Some t'" "estate w' = Returning" "\<not> hasPath w'" for t t' p c
  proof -
    from that(2) w'(2) have "c > 0" by simp
    from depositCarried_credit[OF that(1,2) this that(3)]
      returnBlock_players[OF that(1) that(5) that(6) that(4)]
    show ?thesis by (simp add: getPlayer_def)
  qed
  show ?thesis
    using w' i gm up at credit
    by (intro exI[of _ w'] exI[of _ i]) (auto simp: pickedUp_def)
qed

lemma exGather_step:
  "gatherBlock ''w1'' ([(''w1'', 1)], exGather) = Some ([], exGathered)"
  by code_simp

lemma exGathered_return:
  "map_option (\<lambda>t. map_option gold (getPlayer t ''p1'')) (returnBlock ''w1'' exGathered)
     = Some (Some 310)"
  by (simp add: returnBlock_def exGathered_def exState_def getEntity_def hasPath_def exUnit_def
      newUnit_def depositCarried_def getPlayer_def setEntity_def setPlayer_def exPlayer_def
      truthyStr_def Let_def)

theorem gather_full_carry_from_any_mine_witness:
  "gatherBlock ''w1'' ([(''w1'', 1)], exGather) = Some ([], exGathered) \<and>
   map goldRemaining (goldMines exGather) = [5] \<and>
   map goldRemaining (goldMines exGathered) = [0] \<and>
   map_option carriedGold (getEntity exGathered ''w1'') = Some (Some 10) \<and>
   map_option gold (getPlayer exGathered ''p1'') = Some 300 \<and>
   map_option (\<lambda>t. map_option gold (getPlayer t ''p1'')) (returnBlock ''w1'' exGathered)
     = Some (Some 310)"
proof -
  let ?w = "(exUnit ''w1'' Worker ''p1'' 1 0 60)\<lparr>estate := Gathering\<rparr>"
  have a1: "getEntity exGather ''w1'' = Some ?w"
    by (simp add: exGather_def exState_def getEntity_def)
  have a2: "estate ?w = Gathering" by simp
  have a3: "timerOf [(''w1'', 1)] (eid ?w) \<le> 1"
    by (simp add: timerOf_def exUnit_def newUnit_def)
  have a4: "find (\<lambda>m. eid ?w \<in> set (workerIds m)) (goldMines exGather)
              = Some (exMine ''m1'' 6 0 5 [''w1''])"
    by (simp add: exGather_def exState_def exMine_def exUnit_def newUnit_def)
  from gather_full_carry_from_any_mine[OF a1 a2 a3 a4 exGather_step]
  obtain w' i where w': "getEntity exGathered ''w1'' = Some w'" "carriedGold w' = Some 10"
    and i: "goldRemaining (goldMines exGathered ! i) = max 0 (goldRemaining (exMine ''m1'' 6 0 5 [''w1'']) - 10)"
    by blast
  have "map_option carriedGold (getEntity exGathered ''w1'') = Some (Some 10)"
    using w' by simp
  moreover have "map goldRemaining (goldMines exGather) = [5]"
    "map goldRemaining (goldMines exGathered) = [0]"
    "map_option gold (getPlayer exGathered ''p1'') = Some 300"
    by (simp_all add: exGather_def exGathered_def exState_def exMine_def getPlayer_def exPlayer_def)
  ultimately show ?thesis
    using exGather_step exGathered_return by simp
qed

section \<open>The trackers are shared by all matches\<close>

text \<open>
  C5 fails on the code. The process holds a cooldown entry for the tower \<open>towerB\<close> and a
  gather timer for the worker \<open>workerB\<close>, both entities of a match \<open>B\<close>. One tick of another
  match \<open>A\<close>, whose state has no entity at all, lowers the cooldown of \<open>towerB\<close> from 20 to 19;
  and a tick of \<open>A\<close> in which its victory check fires calls \<open>stop\<close>, which empties both maps, the
  entries of \<open>B\<close> included.
\<close>

theorem trackers_shared_between_matches:
  "map_option (\<lambda>(proc, eng). (attackCooldowns proc, gatherTimers proc, intervalId eng))
      (tick 1000 [] (exSharedProcess, exEngine (exState [])))
     = Some ([(''towerB'', 19)], [(''workerB'', 7)], True) \<and>
   map_option (\<lambda>(proc, eng). (attackCooldowns proc, gatherTimers proc, intervalId eng))
      (tick 1000 [] (exSharedProcess, exEngine (exState [(''b1'', exBase ''b1'' ''p1'' 2 0 2000)])))
     = Some ([], [], False)"
  by code_simp

section \<open>Movement\<close>

lemma advance_suffix: "\<exists>consumed. p = consumed @ snd (snd (advance r px py p))"
proof (induction p arbitrary: r px py)
  case Nil
  then show ?case by simp
next
  case (Cons wp rest)
  obtain tx ty where wp: "wp = (tx, ty)" by (cases wp)
  show ?case
  proof (cases "r > 0 \<and> distTo px py (tx, ty) \<le> r + 1 / 100")
    case True
    from Cons.IH[of "r - distTo px py (tx, ty)" "of_int tx" "of_int ty"]
    obtain consumed where
      "rest = consumed @ snd (snd (advance (r - distTo px py (tx, ty)) (of_int tx) (of_int ty) rest))"
      by blast
    with True wp show ?thesis
      by (intro exI[of _ "(tx, ty) # consumed"]) (simp add: distTo_def Let_def)
  next
    case False
    with wp show ?thesis by (intro exI[of _ "[]"]) (auto simp: distTo_def Let_def)
  qed
qed

lemma advance_step_far:
  assumes "r > 0" and "distTo px py wp > r + 1 / 100"
  shows "advance r px py (wp # rest)
           = (px + (of_int (fst wp) - px) * (r / distTo px py wp),
              py + (of_int (snd wp) - py) * (r / distTo px py wp), wp # rest)"
  using assms by (cases wp) (simp add: distTo_def Let_def)

lemma advance_step_near:
  assumes "r > 0" and "distTo px py wp \<le> r + 1 / 100"
  shows "advance r px py (wp # rest)
           = advance (r - distTo px py wp) (of_int (fst wp)) (of_int (snd wp)) rest"
  using assms by (cases wp) (simp add: distTo_def Let_def)

lemma advance_spent: "r \<le> 0 \<Longrightarrow> advance r px py p = (px, py, p)"
  by (cases p) auto

lemma step_length:
  assumes "d > 0" and "d = sqrt (dx * dx + dy * dy)" and "r > 0"
  shows "sqrt ((dx * (r / d)) * (dx * (r / d)) + (dy * (r / d)) * (dy * (r / d))) = r"
proof -
  have "(dx * (r / d)) * (dx * (r / d)) + (dy * (r / d)) * (dy * (r / d))
        = (dx * dx + dy * dy) * ((r / d) * (r / d))"
    by algebra
  also have "dx * dx + dy * dy = d * d"
  proof -
    have "0 \<le> dx * dx + dy * dy" by simp
    then show ?thesis using assms(2) by (simp add: real_sqrt_mult_self)
  qed
  also have "d * d * ((r / d) * (r / d)) = r * r"
    using assms(1) by (simp add: field_simps)
  finally show ?thesis using assms(3) by (simp add: real_sqrt_mult_self)
qed

lemma moveEntity_eligible:
  assumes "canMove e" and "path e = Some p"
  shows "moveEntity e =
           (case advance (getSpeed e) (ex e) (ey e) p of
              (nx, ny, p') \<Rightarrow>
                e\<lparr>ex := nx, ey := ny, path := Some p',
                  estate := (if p' = [] \<and> estate e = Moving then Idle else estate e)\<rparr>)"
  using assms by (auto simp: moveEntity_def canMove_def split: prod.splits)

text \<open>
  C7. One movement pass applies \<open>moveEntity\<close> to every entity. An entity moves only if it has
  a non-empty path, its state is \<open>moving\<close>, \<open>returning\<close> or \<open>attacking\<close> and its speed is
  positive; buildings have speed 0 and are skipped. If the first waypoint is farther than the
  speed plus the tolerance 0.01, the entity moves straight toward it by exactly its speed and
  keeps its path and state. Otherwise it snaps to the waypoint, the distance is subtracted
  from the budget, the waypoint is popped and the loop goes on from there with the rest of the
  path; it stops when the budget is used up (\<open>r \<le> 0\<close>) or the path is empty. What remains of
  the path is a suffix of the old one; when it is empty a \<open>moving\<close> entity becomes \<open>idle\<close>,
  other states are kept; only position, path and state change.
\<close>

theorem movement_pass:
  "getEntity (processMovement s) k = map_option moveEntity (getEntity s k) \<and>
   map fst (entities (processMovement s)) = map fst (entities s) \<and>
   (\<not> canMove e \<longrightarrow> moveEntity e = e) \<and>
   (isBuildingType (etype e) \<longrightarrow> getSpeed e = 0 \<and> moveEntity e = e) \<and>
   (canMove e \<and> path e = Some (wp # rest) \<and> distTo (ex e) (ey e) wp > getSpeed e + 1 / 100 \<longrightarrow>
      moveEntity e
        = e\<lparr>ex := ex e + (of_int (fst wp) - ex e) * (getSpeed e / distTo (ex e) (ey e) wp),
            ey := ey e + (of_int (snd wp) - ey e) * (getSpeed e / distTo (ex e) (ey e) wp),
            path := Some (wp # rest)\<rparr> \<and>
      sqrt ((ex (moveEntity e) - ex e) * (ex (moveEntity e) - ex e)
            + (ey (moveEntity e) - ey e) * (ey (moveEntity e) - ey e)) = getSpeed e) \<and>
   (canMove e \<and> path e = Some (wp # rest) \<and> distTo (ex e) (ey e) wp \<le> getSpeed e + 1 / 100 \<longrightarrow>
      (ex (moveEntity e), ey (moveEntity e), path (moveEntity e))
        = (case advance (getSpeed e - distTo (ex e) (ey e) wp)
                  (of_int (fst wp)) (of_int (snd wp)) rest of
             (nx, ny, p') \<Rightarrow> (nx, ny, Some p'))) \<and>
   (r \<le> 0 \<longrightarrow> advance r px py p = (px, py, p)) \<and>
   advance r px py [] = (px, py, []) \<and>
   (canMove e \<longrightarrow>
      (\<exists>consumed p'. path (moveEntity e) = Some p' \<and> path e = Some (consumed @ p')) \<and>
      estate (moveEntity e)
        = (if path (moveEntity e) = Some [] \<and> estate e = Moving then Idle else estate e) \<and>
      moveEntity e = e\<lparr>ex := ex (moveEntity e), ey := ey (moveEntity e),
                         path := path (moveEntity e), estate := estate (moveEntity e)\<rparr>)"
proof (intro conjI impI)
  show "getEntity (processMovement s) k = map_option moveEntity (getEntity s k)"
    by (simp add: processMovement_def getEntity_def map_of_map)
  show "map fst (entities (processMovement s)) = map fst (entities s)"
    by (simp add: processMovement_def case_prod_unfold comp_def)
  show "moveEntity e = e" if "\<not> canMove e"
    using that by (auto simp: moveEntity_def canMove_def)
  show "getSpeed e = 0" if "isBuildingType (etype e)"
    using that by (auto simp: isBuildingType_def getSpeed_def)
  show "moveEntity e = e" if "isBuildingType (etype e)"
    using that by (auto simp: isBuildingType_def getSpeed_def moveEntity_def)
  show "r \<le> 0 \<Longrightarrow> advance r px py p = (px, py, p)"
    by (rule advance_spent)
  show "advance r px py [] = (px, py, [])"
    by simp
next
  assume h: "canMove e \<and> path e = Some (wp # rest) \<and> distTo (ex e) (ey e) wp > getSpeed e + 1 / 100"
  then have sp: "getSpeed e > 0" by (simp add: canMove_def)
  have adv: "advance (getSpeed e) (ex e) (ey e) (wp # rest)
           = (ex e + (of_int (fst wp) - ex e) * (getSpeed e / distTo (ex e) (ey e) wp),
              ey e + (of_int (snd wp) - ey e) * (getSpeed e / distTo (ex e) (ey e) wp), wp # rest)"
    using advance_step_far[OF sp, of "ex e" "ey e" wp rest] h by simp
  show m: "moveEntity e
        = e\<lparr>ex := ex e + (of_int (fst wp) - ex e) * (getSpeed e / distTo (ex e) (ey e) wp),
            ey := ey e + (of_int (snd wp) - ey e) * (getSpeed e / distTo (ex e) (ey e) wp),
            path := Some (wp # rest)\<rparr>"
    using h adv by (simp add: moveEntity_eligible)
  have dpos: "distTo (ex e) (ey e) wp > 0" using h sp by simp
  show "sqrt ((ex (moveEntity e) - ex e) * (ex (moveEntity e) - ex e)
            + (ey (moveEntity e) - ey e) * (ey (moveEntity e) - ey e)) = getSpeed e"
    unfolding m using step_length[OF dpos _ sp, of "of_int (fst wp) - ex e" "of_int (snd wp) - ey e"]
    by (simp add: distTo_def)
next
  assume h: "canMove e \<and> path e = Some (wp # rest) \<and> distTo (ex e) (ey e) wp \<le> getSpeed e + 1 / 100"
  then have sp: "getSpeed e > 0" by (simp add: canMove_def)
  have adv: "advance (getSpeed e) (ex e) (ey e) (wp # rest)
           = advance (getSpeed e - distTo (ex e) (ey e) wp) (of_int (fst wp)) (of_int (snd wp)) rest"
    using advance_step_near[OF sp, of "ex e" "ey e" wp rest] h by simp
  show "(ex (moveEntity e), ey (moveEntity e), path (moveEntity e))
        = (case advance (getSpeed e - distTo (ex e) (ey e) wp)
                  (of_int (fst wp)) (of_int (snd wp)) rest of
             (nx, ny, p') \<Rightarrow> (nx, ny, Some p'))"
    using h adv by (simp add: moveEntity_eligible split: prod.splits)
next
  assume c: "canMove e"
  then obtain p where p: "path e = Some p"
    by (cases "path e") (auto simp: canMove_def hasPath_def)
  obtain nx ny p' where a: "advance (getSpeed e) (ex e) (ey e) p = (nx, ny, p')"
    by (cases "advance (getSpeed e) (ex e) (ey e) p") auto
  from advance_suffix[of p "getSpeed e" "ex e" "ey e"] a
  obtain consumed where cs: "p = consumed @ p'" by auto
  have m: "moveEntity e = e\<lparr>ex := nx, ey := ny, path := Some p',
                  estate := (if p' = [] \<and> estate e = Moving then Idle else estate e)\<rparr>"
    using moveEntity_eligible[OF c p] a by simp
  show "\<exists>consumed p'. path (moveEntity e) = Some p' \<and> path e = Some (consumed @ p')"
    using m cs p by auto
  show "estate (moveEntity e)
        = (if path (moveEntity e) = Some [] \<and> estate e = Moving then Idle else estate e)"
    using m by simp
  show "moveEntity e = e\<lparr>ex := ex (moveEntity e), ey := ey (moveEntity e),
                         path := path (moveEntity e), estate := estate (moveEntity e)\<rparr>"
    unfolding m by simp
qed

theorem movement_pass_witness:
  "canMove (exWalker Moving [(3, 0)]) \<and>
   distTo 0 0 (3, 0) > WORKER_SPEED + 1 / 100 \<and>
   moveEntity (exWalker Moving [(3, 0)]) = (exWalker Moving [(3, 0)])\<lparr>ex := 15 / 100\<rparr> \<and>
   canMove (exWalker Returning [(0, 0)]) \<and>
   distTo 0 0 (0, 0) \<le> WORKER_SPEED + 1 / 100 \<and>
   (ex (moveEntity (exWalker Returning [(0, 0)])), ey (moveEntity (exWalker Returning [(0, 0)])),
    path (moveEntity (exWalker Returning [(0, 0)]))) = (0, 0, Some []) \<and>
   estate (moveEntity (exWalker Returning [(0, 0)])) = Returning \<and>
   estate (moveEntity (exWalker Moving [(0, 0)])) = Idle \<and>
   isBuildingType (etype (exBase ''b1'' ''p1'' 2 0 2000)) \<and>
   moveEntity (exBase ''b1'' ''p1'' 2 0 2000) = exBase ''b1'' ''p1'' 2 0 2000"
proof -
  let ?far = "exWalker Moving [(3, 0)]"
  let ?near = "exWalker Returning [(0, 0)]"
  let ?stop = "exWalker Moving [(0, 0)]"
  let ?base = "exBase ''b1'' ''p1'' 2 0 2000"
  have sp: "getSpeed (exWalker st p) = 15 / 100" for st p
    by (simp add: getSpeed_def exWalker_def exUnit_def newUnit_def)
  have pos: "ex (exWalker st p) = 0" "ey (exWalker st p) = 0" "path (exWalker st p) = Some p"
    "estate (exWalker st p) = st" for st p
    by (simp_all add: exWalker_def exUnit_def newUnit_def)
  have c1: "canMove ?far" and c2: "canMove ?near" and c3: "canMove ?stop"
    by (simp_all add: canMove_def hasPath_def sp pos)
  have d1: "distTo 0 0 (3, 0) = 3" and d2: "distTo 0 0 (0, 0) = 0"
    by (simp_all add: distTo_def)
  have b: "isBuildingType (etype ?base)"
    by (simp add: isBuildingType_def exBase_def)
  note T1 = movement_pass[of _ _ ?far "(3, 0)" "[]"]
  note T2 = movement_pass[of _ _ ?near "(0, 0)" "[]"]
  note T3 = movement_pass[of _ _ ?stop "(0, 0)" "[]"]
  note T4 = movement_pass[of _ _ ?base]
  have m1: "moveEntity ?far = ?far\<lparr>ex := 15 / 100\<rparr>"
    using T1 c1 d1 by (simp add: sp pos)
  have m2: "(ex (moveEntity ?near), ey (moveEntity ?near), path (moveEntity ?near)) = (0, 0, Some [])"
    using T2 c2 d2 by (simp add: sp pos)
  have s2: "estate (moveEntity ?near) = Returning"
    using T2 c2 m2 by (simp add: pos)
  have m3: "path (moveEntity ?stop) = Some []"
    using T3 c3 d2 by (simp add: sp pos)
  have s3: "estate (moveEntity ?stop) = Idle"
    using T3 c3 m3 by (simp add: pos)
  have m4: "moveEntity ?base = ?base"
    using T4 b by simp
  show ?thesis
    using c1 c2 d1 d2 m1 m2 s2 s3 b m4 by simp
qed

section \<open>Rejected commands\<close>





















text \<open>
  The recomputation after a rejected \<open>buildStructure\<close> is visible: supply reserved for a
  queued unit is dropped, because \<open>recalculateSupply\<close> counts living units only.
\<close>

lemma rejected_build_drops_reserved_supply:
  "buildRejected exQueued ''p1'' ''ghost'' BHouse 0 0 \<and>
   map_option supplyUsed (getPlayer exQueued ''p1'') = Some 2 \<and>
   map_option (\<lambda>(ids, s). map_option supplyUsed (getPlayer s ''p1''))
     (dispatch (''p1'', BuildStructure ''ghost'' BHouse 0 0) (uuidSource exProcess, exQueued))
     = Some (Some 1)"
  by code_simp

section \<open>The build escrow\<close>

text \<open>
  Square roots of squares of hundredths evaluate.
\<close>

lemma sqrt_candidates [code]:
  "sqrt x = (case find (\<lambda>r. r * r = x) (rootCandidates x) of
               Some r \<Rightarrow> r
             | None \<Rightarrow> Code.abort (STR ''irrational square root'') (\<lambda>_. sqrt x))"
proof (cases "find (\<lambda>r. r * r = x) (rootCandidates x)")
  case None
  then show ?thesis by simp
next
  case (Some r)
  then obtain i where "i < length (rootCandidates x)" and "rootCandidates x ! i = r"
    and sq: "r * r = x"
    by (auto simp: find_Some_iff)
  then have "r \<in> set (rootCandidates x)" using nth_mem by blast
  then have "0 \<le> r" by (auto simp: rootCandidates_def Let_def)
  with sq have "sqrt x = r" by (metis real_sqrt_abs2 abs_of_nonneg)
  with Some show ?thesis by simp
qed

text \<open>
  The command of the example is accepted: the handler deducts the 100 gold of a house and
  stores the order on the worker.
\<close>

lemma escrow_reserved_on_acceptance:
  "map_option (ledger \<circ> snd)
      (handleBuildStructure (uuidSource exProcess, exEscrow) ''p1'' ''w1'' BHouse 4 0)
     = Some ([(''p1'', 200), (''p2'', 300)],
             [(''w1'', Worker, Some (BHouse, 4, 0)), (''i2'', Infantry, None)])"
  by code_simp

text \<open>
  C3 fails on the code. Player \<open>p1\<close> has 300 gold and a worker with 5 hit points at
  \<open>(0, 0)\<close>; an infantry of \<open>p2\<close> stands at \<open>(1, 0)\<close>. The command to build a house at
  \<open>(4, 0)\<close> is queued and accepted in the tick: 100 gold are deducted and the order is stored
  on the worker. In the same tick the infantry kills the worker. After the tick the worker and
  its order are gone, there is no house, and \<open>p1\<close> still has 200 gold: the reserved gold is
  neither a building nor a refund.
\<close>

theorem escrow_lost_with_worker:
  "ledger exEscrow
     = ([(''p1'', 300), (''p2'', 300)], [(''w1'', Worker, None), (''i2'', Infantry, None)]) \<and>
   commandQueue exEscrowEngine = [(''p1'', BuildStructure ''w1'' BHouse 4 0)] \<and>
   map_option (ledger \<circ> gameState \<circ> snd) (tick 1000 [] (exProcess, exEscrowEngine))
     = Some ([(''p1'', 200), (''p2'', 300)], [(''i2'', Infantry, None)])"
  by code_simp

end
